theory Spec2Isabelle
  imports Complex_Main "HOL-Library.Word" "HOL-Library.AList" "HOL-Library.Log_Nat"
begin

section \<open>JavaScript numbers\<close>

text \<open>
  A JavaScript number is a finite value, one of the two infinities, or NaN. The finite
  values are modelled by the reals they denote: every operation the audio manager applies
  to a finite sample or volume (comparison, clamping, the product of a 32-bit float by
  32767) is exact in double precision, so no rounding is lost by this choice. The one
  operation that rounds, the division of the input level, is \<open>js_divide\<close> below.
\<close>

datatype jsnum = Fin real | PosInf | NegInf | NaN

definition isFinite :: "jsnum \<Rightarrow> bool" where
  "isFinite v = (case v of Fin _ \<Rightarrow> True | _ \<Rightarrow> False)"

fun js_le :: "jsnum \<Rightarrow> jsnum \<Rightarrow> bool" where
  "js_le NaN b = False"
| "js_le a NaN = False"
| "js_le NegInf b = True"
| "js_le a PosInf = True"
| "js_le (Fin a) (Fin b) = (a \<le> b)"
| "js_le a b = False"

text \<open>\<^verbatim>\<open>Math.min\<close> and \<^verbatim>\<open>Math.max\<close> of two arguments: NaN if either is NaN.\<close>

definition math_min :: "jsnum \<Rightarrow> jsnum \<Rightarrow> jsnum" where
  "math_min a b = (if a = NaN \<or> b = NaN then NaN else if js_le a b then a else b)"

definition math_max :: "jsnum \<Rightarrow> jsnum \<Rightarrow> jsnum" where
  "math_max a b = (if a = NaN \<or> b = NaN then NaN else if js_le a b then b else a)"

text \<open>The product \<^verbatim>\<open>x * k\<close> for a finite constant \<open>k\<close>.\<close>

fun js_times :: "jsnum \<Rightarrow> real \<Rightarrow> jsnum" where
  "js_times (Fin a) k = Fin (a * k)"
| "js_times PosInf k = (if 0 < k then PosInf else if k < 0 then NegInf else NaN)"
| "js_times NegInf k = (if 0 < k then NegInf else if k < 0 then PosInf else NaN)"
| "js_times NaN k = NaN"

text \<open>
  The quotient of two integers is not exact in general: the division returns the
  double nearest to it, ties to the even significand. \<open>doubleDivide p q\<close> is that
  double for positive integers \<open>p\<close> and \<open>q\<close> below \<open>2^53\<close> (which are doubles
  themselves): \<open>floorlog 2 n\<close> is the number of bits of \<open>n\<close>, \<open>e\<close> is the binary
  exponent of the quotient, and the significand of the quotient is rounded to 53 bits.
  The quotients taken below are at most 1 and, an analyser having at most 16384 bins,
  above \<open>2^-22\<close>: far from the subnormal range and from overflow.
\<close>

definition roundTiesToEven :: "real \<Rightarrow> int" where
  "roundTiesToEven x =
     (let f = \<lfloor>x\<rfloor>; d = x - of_int f
      in if d < 1 / 2 then f else if 1 / 2 < d then f + 1 else if even f then f else f + 1)"

definition doubleDivide :: "nat \<Rightarrow> nat \<Rightarrow> real" where
  "doubleDivide p q =
     (let a = int (floorlog 2 p) - int (floorlog 2 q);
          e = (if real q * 2 powi a \<le> real p then a else a - 1)
      in of_int (roundTiesToEven (real p / real q * 2 powi (52 - e))) * 2 powi (e - 52))"

text \<open>\<^verbatim>\<open>p / q\<close> for two such integers, zero included.\<close>

definition js_divide :: "nat \<Rightarrow> nat \<Rightarrow> jsnum" where
  "js_divide p q =
     (if q = 0 then (if p = 0 then NaN else PosInf)
      else if p = 0 then Fin 0
      else Fin (doubleDivide p q))"

text \<open>Rounding towards zero, the integer part that a typed-array store keeps.\<close>

definition js_trunc :: "real \<Rightarrow> int" where
  "js_trunc r = (if 0 \<le> r then \<lfloor>r\<rfloor> else \<lceil>r\<rceil>)"

text \<open>
  Storing a number into an \<^verbatim>\<open>Int16Array\<close> element (ECMAScript \<^verbatim>\<open>ToInt16\<close>):
  NaN and the infinities become 0, a finite value is truncated towards zero and
  reduced modulo \<open>2^16\<close>; \<open>sint\<close> reads the stored element.
\<close>

definition toInt16 :: "jsnum \<Rightarrow> 16 word" where
  "toInt16 v = (case v of Fin r \<Rightarrow> word_of_int (js_trunc r) | _ \<Rightarrow> 0)"

section \<open>Configuration constants\<close>

definition MAX_VOLUME :: jsnum where "MAX_VOLUME = Fin 1"
definition MIN_VOLUME :: jsnum where "MIN_VOLUME = Fin 0"
definition DEFAULT_VOLUME :: jsnum where "DEFAULT_VOLUME = Fin 0"
definition ANALYSER_FFT_SIZE :: nat where "ANALYSER_FFT_SIZE = 256"
definition BYTE_MAX :: nat where "BYTE_MAX = 255"
definition DEFAULT_CHUNK_SIZE :: jsnum where "DEFAULT_CHUNK_SIZE = Fin 100"
definition DEFAULT_BUFFER_SIZE :: jsnum where "DEFAULT_BUFFER_SIZE = Fin 2048"
definition DEFAULT_PCM_BUFFER_SIZE :: jsnum where "DEFAULT_PCM_BUFFER_SIZE = Fin 4096"
definition INT16_SCALE :: real where "INT16_SCALE = 32767"

section \<open>Sample conversion\<close>

text \<open>
  \<^verbatim>\<open>#float32ToInt16\<close>: every element of the output is the clamped sample times
  \<open>INT16_SCALE\<close>, stored into an \<^verbatim>\<open>Int16Array\<close>.
\<close>

definition convertSample :: "jsnum \<Rightarrow> 16 word" where
  "convertSample x = toInt16 (js_times (math_max (Fin (- 1)) (math_min (Fin 1) x)) INT16_SCALE)"

definition float32ToInt16 :: "jsnum list \<Rightarrow> 16 word list" where
  "float32ToInt16 buffer = map convertSample buffer"

text \<open>The conversion as the specification words it: clamp, scale, round to nearest.\<close>

definition spec_round_sample :: "real \<Rightarrow> int" where
  "spec_round_sample x = round (max (- 1) (min 1 x) * 32767)"


section \<open>Strings\<close>

text \<open>
  \<^verbatim>\<open>String.prototype.toLowerCase\<close> on the ASCII letters and \<^verbatim>\<open>includes\<close>.
  No character outside ASCII lowers to one of the letters of \<open>agent\<close>, so the
  role test below is decided by the ASCII letters alone.
\<close>

definition lowerChar :: "char \<Rightarrow> char" where
  "lowerChar c =
     (case map_of (zip ''ABCDEFGHIJKLMNOPQRSTUVWXYZ'' ''abcdefghijklmnopqrstuvwxyz'') c of
        Some d \<Rightarrow> d
      | None \<Rightarrow> c)"

definition toLowerCase :: "string \<Rightarrow> string" where
  "toLowerCase str = map lowerChar str"

fun js_includes :: "string \<Rightarrow> string \<Rightarrow> bool" where
  "js_includes [] needle = (needle = [])"
| "js_includes (c # cs) needle =
     (take (length needle) (c # cs) = needle \<or> js_includes cs needle)"

text \<open>\<^verbatim>\<open>identity || 'unknown'\<close>: the empty string is falsy.\<close>

definition orUnknown :: "string \<Rightarrow> string" where
  "orUnknown str = (if str = [] then ''unknown'' else str)"

section \<open>Data model\<close>

text \<open>A thrown \<^verbatim>\<open>Error\<close>, with its message.\<close>

datatype exn = Error string

text \<open>The outcome of a call into the platform or into a collaborator.\<close>

datatype 'a call = Returns 'a | Raises string

datatype track_kind = Audio | Video | UnknownKind

datatype track_source = Camera | Microphone | ScreenShare | ScreenShareAudio | UnknownSource

text \<open>
  An \<^verbatim>\<open>HTMLAudioElement\<close>. \<open>el_handle\<close> is the identity of the object and
  \<open>el_parent\<close> says whether it has a parent node. Every call of
  \<^verbatim>\<open>#setupAudioMonitoring\<close> on the element registers three listeners that share a
  closure variable \<^verbatim>\<open>isCurrentlySpeaking\<close> of their own, and nothing removes
  them: \<open>el_monitors\<close> holds these variables, one for each call, in registration
  order.
\<close>

record audio_element =
  el_handle :: nat
  el_volume :: jsnum
  el_autoplay :: bool
  el_hidden :: bool
  el_parent :: bool
  el_monitors :: "bool list"

record media_stream_track =
  mst_id :: string

text \<open>
  A LiveKit track. \<open>tr_attach\<close> is what \<^verbatim>\<open>track.attach()\<close> returns (\<open>None\<close> for
  a null result) and \<open>tr_detach\<close> what \<^verbatim>\<open>track.detach()\<close> returns (\<open>None\<close> when
  the track has no such method).
\<close>

record track =
  tr_sid :: "string option"
  tr_mediaStreamTrack :: "media_stream_track option"
  tr_kind :: track_kind
  tr_source :: track_source
  tr_attach :: "audio_element option"
  tr_detach :: "audio_element list option"

record publication =
  pub_source :: track_source
  pub_isMuted :: bool
  pub_isEnabled :: bool
  pub_dimensions :: "(nat \<times> nat) option"
  pub_simulcasted :: "bool option"

record participant =
  identity :: string

record track_stats_data =
  ts_trackId :: string
  ts_kind :: track_kind
  ts_participant :: string
  ts_subscriptionTime :: nat
  ts_publication :: publication
  ts_source :: string
  ts_muted :: bool
  ts_enabled :: bool
  ts_dimensions :: "(nat \<times> nat) option"
  ts_simulcasted :: "bool option"

record track_stats_result =
  totalTracks :: nat
  activeTracks :: nat
  audioElementCount :: nat
  trackDetails :: "(string \<times> track_stats_data) list"

text \<open>Events of the manager, with their payloads, and their names.\<close>

datatype event =
    VolumeChanged jsnum
  | ErrorEvent string
  | TrackSubscribed string string "track_stats_data option"
  | TrackUnsubscribed string string
  | Speaking
  | Listening

datatype event_name =
  EvVolumeChanged | EvError | EvTrackSubscribed | EvTrackUnsubscribed | EvSpeaking | EvListening

fun eventName :: "event \<Rightarrow> event_name" where
  "eventName (VolumeChanged _) = EvVolumeChanged"
| "eventName (ErrorEvent _) = EvError"
| "eventName (TrackSubscribed _ _ _) = EvTrackSubscribed"
| "eventName (TrackUnsubscribed _ _) = EvTrackUnsubscribed"
| "eventName Speaking = EvSpeaking"
| "eventName Listening = EvListening"

text \<open>A registered listener either returns or throws when it is called.\<close>

datatype listener = ListenerReturns | ListenerThrows string

text \<open>
  The room: what the manager reads of it. \<open>lp_getTrackPublication\<close> is the method of
  the local participant (\<open>None\<close> when there is none); its result is reduced to
  \<^verbatim>\<open>publication?.track?.mediaStreamTrack\<close>. A method is called on its object or
  detached from it, with \<^verbatim>\<open>this\<close> undefined.
\<close>

datatype mic_arg = SourceMicrophone | LiteralMicrophone

datatype receiver = OnParticipant | Detached

record local_participant =
  lp_trackPublications :: "track option list"
  lp_getTrackPublication ::
    "(receiver \<Rightarrow> mic_arg \<Rightarrow> media_stream_track option call) option"

record room =
  remoteParticipants :: "track option list list"
  localParticipant :: "local_participant option"

text \<open>Audio capture options (\<^verbatim>\<open>AudioCaptureOptions\<close>): every field is optional.\<close>

datatype capture_source = Agent | User | Both

datatype capture_format = OpusWebm | PcmF32 | PcmI16

datatype callback = Callback nat

record capture_options =
  opt_source :: "capture_source option"
  opt_trackSourceFilter :: "string option"
  opt_format :: "capture_format option"
  opt_chunkSize :: "jsnum option"
  opt_bufferSize :: "jsnum option"
  opt_callback :: "callback option"
  opt_onData :: "callback option"

text \<open>Calls into the platform that the manager makes for their effect only: on the
  stream, recorder, node or clone of a track id, on the audio context, on the audio
  element with a handle.\<close>

datatype effect =
    TrackCloned string
  | RecorderStarted string
  | RecorderStopped string
  | NodeDisconnected string
  | SourceDisconnected string
  | CloneStopped string
  | ContextClosed
  | ElementAppended nat
  | ElementRemoved nat
  | WorkletModuleAdded

text \<open>The platform: which of its calls succeed. \<open>throwing\<close> says, call by call, whether
  a \<^verbatim>\<open>stop\<close>, \<^verbatim>\<open>disconnect\<close>, \<^verbatim>\<open>appendChild\<close> or \<^verbatim>\<open>removeChild\<close> throws, and
  whether \<^verbatim>\<open>close().catch(...)\<close> on the audio context does.\<close>

datatype context_state = Running | Suspended | Closed

datatype ctor_behaviour =
    NoConstructor
  | Constructs context_state
  | RejectsOptions context_state
  | AlwaysThrows

record platform =
  audioContextCtor :: ctor_behaviour
  analyserBins :: "8 word list"
  createSourceThrows :: bool
  createAnalyserThrows :: bool
  createProcessorThrows :: bool
  createGainThrows :: bool
  hasAudioWorklet :: bool
  addModuleFails :: bool
  workletNodeThrows :: bool
  mediaRecorderThrows :: "string option"
  isTypeSupported :: "string \<Rightarrow> bool"
  throwing :: "effect \<Rightarrow> bool"
  cloneId :: "string \<Rightarrow> string"

record audio_context =
  ctx_sampleRate :: "nat option"
  ctx_state :: context_state

record analyser =
  an_fftSize :: nat
  frequencyBinCount :: nat
  an_bins :: "8 word list"
  an_readThrows :: bool

record recorder =
  rec_mimeType :: string
  rec_timeslice :: "jsnum option"

datatype audio_node = WorkletNode jsnum | ScriptProcessor jsnum | GainNode | StreamSource

record capture_entry =
  cap_participant :: string
  cap_source :: capture_source

record pcm_params =
  pcm_trackId :: string
  pcm_participant :: string
  pcm_source :: capture_source
  pcm_trackSource :: string
  pcm_format :: capture_format
  pcm_bufferSize :: jsnum
  pcm_callback :: callback

text \<open>
  The manager. The fields up to \<open>workletReady\<close> are those of the class, but for the
  output analyser and the logger, which no method below reads (the JavaScript
  \<^verbatim>\<open>Map\<close>s are association lists in insertion order, the \<^verbatim>\<open>Set\<close> a list of
  objects with distinct handles; \<open>workletReady\<close> says whether the registration promise
  is set). \<open>listeners\<close> is the listener table that the class
  inherits from \<^verbatim>\<open>EventEmitter\<close>; \<open>emitted\<close> records every call of
  \<^verbatim>\<open>emit\<close>, \<open>effects\<close> every platform call made for its effect, and
  \<open>pendingWorklet\<close> the worklet set-ups that wait for the registration promise.
\<close>

record manager =
  audioElements :: "audio_element list"
  trackStats :: "(string \<times> track_stats_data) list"
  volume :: jsnum
  room :: "room option"
  audioContext :: "audio_context option"
  inputAnalyser :: "analyser option"
  audioCaptureEnabled :: bool
  audioCaptureOptions :: "capture_options option"
  recorders :: "(string \<times> recorder) list"
  processors :: "(string \<times> audio_node) list"
  sourceNodes :: "(string \<times> audio_node) list"
  clonedTracks :: "(string \<times> media_stream_track) list"
  trackCaptureMap :: "(string \<times> capture_entry) list"
  workletReady :: bool
  listeners :: "event_name \<Rightarrow> listener list"
  emitted :: "event list"
  platform :: platform
  effects :: "effect list"
  pendingWorklet :: "pcm_params list"

text \<open>A manager as its constructor leaves it, on a given platform.\<close>

definition newManager :: "platform \<Rightarrow> manager" where
  "newManager pf =
     \<lparr> audioElements = [], trackStats = [], volume = Fin 1, room = None,
       audioContext = None, inputAnalyser = None, audioCaptureEnabled = False,
       audioCaptureOptions = None, recorders = [], processors = [], sourceNodes = [],
       clonedTracks = [], trackCaptureMap = [], workletReady = False,
       listeners = (\<lambda>_. []), emitted = [], platform = pf, effects = [],
       pendingWorklet = [] \<rparr>"


section \<open>The event emitter\<close>

text \<open>
  \<^verbatim>\<open>emit\<close> of the \<^verbatim>\<open>events\<close> package, which the manager extends: the listeners
  of the event run synchronously in registration order, an exception of a listener
  propagates to the caller of \<^verbatim>\<open>emit\<close>, and emitting \<^verbatim>\<open>'error'\<close> while no
  listener is registered for it throws the error that was passed. The manager's own
  \<^verbatim>\<open>#emitMicEventSafely\<close> wraps \<^verbatim>\<open>emit\<close> in a try block and tests
  \<^verbatim>\<open>listenerCount('error') > 0\<close> before it emits an error, for these two reasons.
\<close>

fun runListeners :: "listener list \<Rightarrow> exn option" where
  "runListeners [] = None"
| "runListeners (ListenerReturns # ls) = runListeners ls"
| "runListeners (ListenerThrows msg # ls) = Some (Error msg)"

definition emit :: "event \<Rightarrow> manager \<Rightarrow> exn option \<times> manager" where
  "emit ev s =
     (let s' = s\<lparr>emitted := emitted s @ [ev]\<rparr> in
      case listeners s (eventName ev) of
        [] \<Rightarrow> (case ev of ErrorEvent msg \<Rightarrow> (Some (Error msg), s') | _ \<Rightarrow> (None, s'))
      | l # ls \<Rightarrow> (runListeners (l # ls), s'))"

section \<open>Volume\<close>

text \<open>
  The setter of \<^verbatim>\<open>HTMLMediaElement.volume\<close> throws for a value outside \<open>[0, 1]\<close>
  and for a non-finite one. Every element of the set is an \<^verbatim>\<open>HTMLAudioElement\<close>,
  so the guard \<^verbatim>\<open>typeof audioElement.volume !== 'undefined'\<close> of the loop holds.
\<close>

definition setElementVolume :: "jsnum \<Rightarrow> audio_element \<Rightarrow> exn + audio_element" where
  "setElementVolume v e =
     (case v of
        Fin r \<Rightarrow> if 0 \<le> r \<and> r \<le> 1 then Inr (e\<lparr>el_volume := v\<rparr>)
                 else Inl (Error ''IndexSizeError'')
      | _ \<Rightarrow> Inl (Error ''TypeError''))"

fun applyVolume :: "jsnum \<Rightarrow> audio_element list \<Rightarrow> exn option \<times> audio_element list" where
  "applyVolume v [] = (None, [])"
| "applyVolume v (e # es) =
     (case setElementVolume v e of
        Inl x \<Rightarrow> (Some x, e # es)
      | Inr e' \<Rightarrow> (case applyVolume v es of (r, es') \<Rightarrow> (r, e' # es')))"

text \<open>The try block of \<^verbatim>\<open>setVolume\<close>, then the method with its catch clause.\<close>

definition setVolume_try :: "jsnum \<Rightarrow> manager \<Rightarrow> exn option \<times> manager" where
  "setVolume_try v s =
     (let s1 = s\<lparr>volume := (if isFinite v then math_min MAX_VOLUME (math_max MIN_VOLUME v)
                              else DEFAULT_VOLUME)\<rparr> in
      case applyVolume (volume s1) (audioElements s1) of
        (Some x, es) \<Rightarrow> (Some x, s1\<lparr>audioElements := es\<rparr>)
      | (None, es) \<Rightarrow> emit (VolumeChanged (volume s1)) (s1\<lparr>audioElements := es\<rparr>))"

definition setVolume :: "jsnum \<Rightarrow> manager \<Rightarrow> exn option \<times> manager" where
  "setVolume v s =
     (case setVolume_try v s of
        (None, s') \<Rightarrow> (None, s')
      | (Some (Error msg), s') \<Rightarrow> emit (ErrorEvent (''Failed to set volume: '' @ msg)) s')"

definition getOutputVolume :: "manager \<Rightarrow> jsnum" where
  "getOutputVolume s = volume s"

section \<open>Input level\<close>

text \<open>
  \<^verbatim>\<open>#ensureAudioContext\<close>. The request to resume a suspended context, here and in
  \<^verbatim>\<open>#setupPCMCapture\<close>, is asynchronous and its failure is ignored or only logged; it
  leaves the manager as it is.
\<close>

definition ensureAudioContext :: "manager \<Rightarrow> manager" where
  "ensureAudioContext s =
     (if audioContext s \<noteq> None then s
      else case audioContextCtor (platform s) of
        NoConstructor \<Rightarrow> s
      | Constructs st \<Rightarrow>
          s\<lparr>audioContext := Some \<lparr>ctx_sampleRate = Some 16000, ctx_state = st\<rparr>\<rparr>
      | RejectsOptions st \<Rightarrow>
          s\<lparr>audioContext := Some \<lparr>ctx_sampleRate = None, ctx_state = st\<rparr>\<rparr>
      | AlwaysThrows \<Rightarrow> s\<lparr>audioContext := None\<rparr>)"

text \<open>
  The microphone's media track, as \<^verbatim>\<open>#initializeInputAnalyser\<close> looks it up: the
  method is read into a variable and called through it, detached from the participant,
  with \<^verbatim>\<open>Track.Source.Microphone\<close> and, if that throws, with the literal; an
  exception of the second call leaves the lookup.
\<close>

definition lookupMicrophone :: "room option \<Rightarrow> exn + media_stream_track option" where
  "lookupMicrophone r =
     (case r of
        None \<Rightarrow> Inr None
      | Some rm \<Rightarrow>
         (case localParticipant rm of
            None \<Rightarrow> Inr None
          | Some lp \<Rightarrow>
             (case lp_getTrackPublication lp of
                None \<Rightarrow> Inr None
              | Some getter \<Rightarrow>
                 (case getter Detached SourceMicrophone of
                    Returns p \<Rightarrow> Inr p
                  | Raises _ \<Rightarrow>
                     (case getter Detached LiteralMicrophone of
                        Returns p \<Rightarrow> Inr p
                      | Raises msg \<Rightarrow> Inl (Error msg))))))"

definition initializeInputAnalyser :: "manager \<Rightarrow> manager" where
  "initializeInputAnalyser s =
     (let s1 = ensureAudioContext s in
      case audioContext s1 of
        None \<Rightarrow> s1
      | Some ctx \<Rightarrow>
         (case lookupMicrophone (room s1) of
            Inl _ \<Rightarrow> s1\<lparr>inputAnalyser := None\<rparr>
          | Inr None \<Rightarrow> s1
          | Inr (Some mediaTrack) \<Rightarrow>
             if createSourceThrows (platform s1) \<or> createAnalyserThrows (platform s1)
             then s1\<lparr>inputAnalyser := None\<rparr>
             else s1\<lparr>inputAnalyser :=
                    Some \<lparr>an_fftSize = ANALYSER_FFT_SIZE,
                          frequencyBinCount = ANALYSER_FFT_SIZE div 2,
                          an_bins = analyserBins (platform s1),
                          an_readThrows = False\<rparr>\<rparr>))"

text \<open>
  \<^verbatim>\<open>getByteFrequencyData\<close> copies the analyser's bins into the array it is given:
  bins beyond the array are dropped, elements beyond the bins are left as they are.
\<close>

definition getByteFrequencyData :: "analyser \<Rightarrow> 8 word list \<Rightarrow> exn + 8 word list" where
  "getByteFrequencyData a arr =
     (if an_readThrows a then Inl (Error ''getByteFrequencyData'')
      else Inr (take (length arr) (an_bins a) @ drop (length (an_bins a)) arr))"

text \<open>
  The try block of \<^verbatim>\<open>getInputVolume\<close>, then the method with its catch clause. The
  sum of the bytes and the product of the length by 255 are exact (an analyser has at
  most 16384 bins); their quotient is the double that the division returns.
\<close>

definition getInputVolume_try :: "manager \<Rightarrow> (exn + jsnum) \<times> manager" where
  "getInputVolume_try s =
     (let s1 = (if inputAnalyser s = None then initializeInputAnalyser s else s) in
      case inputAnalyser s1 of
        None \<Rightarrow> (Inr MIN_VOLUME, s1)
      | Some a \<Rightarrow>
         (case getByteFrequencyData a (replicate (frequencyBinCount a) 0) of
            Inl x \<Rightarrow> (Inl x, s1)
          | Inr dataArray \<Rightarrow>
             if length dataArray = 0 then (Inr MIN_VOLUME, s1)
             else
               let total = sum_list (map unat dataArray);
                   avg = js_divide total (length dataArray * BYTE_MAX)
               in (Inr (math_max MIN_VOLUME (math_min MAX_VOLUME avg)), s1)))"

definition getInputVolume :: "manager \<Rightarrow> (exn + jsnum) \<times> manager" where
  "getInputVolume s =
     (case getInputVolume_try s of
        (Inl _, s') \<Rightarrow> (Inr MIN_VOLUME, s')
      | (Inr v, s') \<Rightarrow> (Inr v, s'))"

section \<open>Activity detection\<close>

text \<open>
  \<^verbatim>\<open>#setupAudioMonitoring\<close> creates a closure variable, initially false, and
  registers three listeners on the element, after those that are there already. Each
  listener is a function of its closure variable and of the manager, and returns the
  new value of the variable.
\<close>

definition setupAudioMonitoring :: "audio_element \<Rightarrow> audio_element" where
  "setupAudioMonitoring e = e\<lparr>el_monitors := el_monitors e @ [False]\<rparr>"

definition onPlay :: "bool \<Rightarrow> manager \<Rightarrow> bool \<times> exn option \<times> manager" where
  "onPlay isCurrentlySpeaking s =
     (if \<not> isCurrentlySpeaking then (True, emit Speaking s)
      else (isCurrentlySpeaking, None, s))"

definition onPause :: "bool \<Rightarrow> manager \<Rightarrow> bool \<times> exn option \<times> manager" where
  "onPause isCurrentlySpeaking s = (False, emit Listening s)"

definition onEnded :: "bool \<Rightarrow> manager \<Rightarrow> bool \<times> exn option \<times> manager" where
  "onEnded isCurrentlySpeaking s = (False, emit Listening s)"

datatype media_event = Play | Pause | Ended

fun dispatch :: "media_event \<Rightarrow> bool \<Rightarrow> manager \<Rightarrow> bool \<times> exn option \<times> manager" where
  "dispatch Play b s = onPlay b s"
| "dispatch Pause b s = onPause b s"
| "dispatch Ended b s = onEnded b s"

text \<open>
  A media event on an element calls the listeners registered for it, in registration
  order: one of each set, each with the closure variable of its set. An exception of
  a listener is reported by the browser and does not stop the listeners after it.
\<close>

fun fireEvent :: "media_event \<Rightarrow> bool list \<Rightarrow> manager \<Rightarrow> bool list \<times> manager" where
  "fireEvent ev [] s = ([], s)"
| "fireEvent ev (b # bs) s =
     (case dispatch ev b s of
        (b', _, s') \<Rightarrow> (case fireEvent ev bs s' of (bs', s'') \<Rightarrow> (b' # bs', s'')))"

text \<open>A media event on the element with handle \<open>h\<close> of the manager's set.\<close>

definition mediaEvent :: "media_event \<Rightarrow> nat \<Rightarrow> manager \<Rightarrow> manager" where
  "mediaEvent ev h s =
     (case find (\<lambda>e. el_handle e = h) (audioElements s) of
        None \<Rightarrow> s
      | Some e \<Rightarrow>
         (case fireEvent ev (el_monitors e) s of
            (bs, s') \<Rightarrow>
              s'\<lparr>audioElements :=
                   map (\<lambda>x. if el_handle x = h then x\<lparr>el_monitors := bs\<rparr> else x)
                     (audioElements s')\<rparr>))"

fun mediaEvents :: "media_event list \<Rightarrow> nat \<Rightarrow> manager \<Rightarrow> manager" where
  "mediaEvents [] h s = s"
| "mediaEvents (ev # evs) h s = mediaEvents evs h (mediaEvent ev h s)"

text \<open>The closure variables of the listener sets on the element with handle \<open>h\<close> of
  the manager's set.\<close>

definition monitorsOf :: "nat \<Rightarrow> manager \<Rightarrow> bool list option" where
  "monitorsOf h s = map_option el_monitors (find (\<lambda>x. el_handle x = h) (audioElements s))"


section \<open>Track registry and playback elements\<close>

text \<open>The key of a track: its sid, else the id of its media track, else \<open>unknown\<close>.\<close>

definition trackKey :: "track \<Rightarrow> string" where
  "trackKey t =
     (let fallback = (case tr_mediaStreamTrack t of
                        Some m \<Rightarrow> if mst_id m \<noteq> [] then mst_id m else ''unknown''
                      | None \<Rightarrow> ''unknown'')
      in case tr_sid t of
           Some sid \<Rightarrow> if sid \<noteq> [] then sid else fallback
         | None \<Rightarrow> fallback)"

fun getTrackSourceString :: "track_source \<Rightarrow> string" where
  "getTrackSourceString Microphone = ''microphone''"
| "getTrackSourceString Camera = ''camera''"
| "getTrackSourceString ScreenShare = ''screen_share''"
| "getTrackSourceString ScreenShareAudio = ''screen_share_audio''"
| "getTrackSourceString UnknownSource = ''unknown''"

text \<open>\<^verbatim>\<open>Map.prototype.has\<close>; \<^verbatim>\<open>set\<close> and \<^verbatim>\<open>delete\<close> are \<open>AList.update\<close> and
  \<open>AList.delete\<close>, which keep the position of a key that is already there.\<close>

definition mapHas :: "('k \<times> 'v) list \<Rightarrow> 'k \<Rightarrow> bool" where
  "mapHas m k = (map_of m k \<noteq> None)"

definition recordTrackStats ::
  "track \<Rightarrow> publication \<Rightarrow> participant \<Rightarrow> nat \<Rightarrow> manager \<Rightarrow> manager" where
  "recordTrackStats t pub p now s =
     s\<lparr>trackStats := AList.update (trackKey t)
          \<lparr> ts_trackId = trackKey t,
            ts_kind = tr_kind t,
            ts_participant = orUnknown (identity p),
            ts_subscriptionTime = now,
            ts_publication = pub,
            ts_source = getTrackSourceString (pub_source pub),
            ts_muted = pub_isMuted pub,
            ts_enabled = pub_isEnabled pub,
            ts_dimensions = pub_dimensions pub,
            ts_simulcasted = pub_simulcasted pub \<rparr>
          (trackStats s)\<rparr>"

definition emitTrackSubscribed ::
  "track \<Rightarrow> publication \<Rightarrow> participant \<Rightarrow> manager \<Rightarrow> exn option \<times> manager" where
  "emitTrackSubscribed t pub p s =
     emit (TrackSubscribed (trackKey t) (orUnknown (identity p))
             (map_of (trackStats s) (trackKey t))) s"

text \<open>\<^verbatim>\<open>Set.prototype.add\<close> of an object: an object that is already in the set
  stays where it is (and shows the fields it has now).\<close>

definition setAdd :: "audio_element \<Rightarrow> audio_element list \<Rightarrow> audio_element list" where
  "setAdd e es =
     (if el_handle e \<in> el_handle ` set es
      then map (\<lambda>x. if el_handle x = el_handle e then e else x) es
      else es @ [e])"

definition attachAudioElementToDOM :: "nat \<Rightarrow> manager \<Rightarrow> manager" where
  "attachAudioElementToDOM h s =
     (if throwing (platform s) (ElementAppended h)
      then s\<lparr>audioElements :=
               map (\<lambda>e. if el_handle e = h then e\<lparr>el_hidden := True\<rparr> else e) (audioElements s)\<rparr>
      else s\<lparr>audioElements :=
               map (\<lambda>e. if el_handle e = h then e\<lparr>el_hidden := True, el_parent := True\<rparr> else e)
                 (audioElements s),
             effects := effects s @ [ElementAppended h]\<rparr>)"

section \<open>Audio capture\<close>

definition trackMatches :: "string \<Rightarrow> track option \<Rightarrow> bool" where
  "trackMatches trackId pt =
     (case pt of
        None \<Rightarrow> False
      | Some t \<Rightarrow>
          tr_sid t = Some trackId \<or>
          (case tr_mediaStreamTrack t of Some m \<Rightarrow> mst_id m = trackId | None \<Rightarrow> False))"

definition getTrackById :: "string \<Rightarrow> manager \<Rightarrow> track option" where
  "getTrackById trackId s =
     (case room s of
        None \<Rightarrow> None
      | Some rm \<Rightarrow>
         (case find (trackMatches trackId) (concat (remoteParticipants rm)) of
            Some pt \<Rightarrow> pt
          | None \<Rightarrow>
             (case localParticipant rm of
                None \<Rightarrow> None
              | Some lp \<Rightarrow>
                 (case find (trackMatches trackId) (lp_trackPublications lp) of
                    Some pt \<Rightarrow> pt
                  | None \<Rightarrow> None))))"

definition getSupportedMimeType :: "platform \<Rightarrow> string" where
  "getSupportedMimeType pf =
     (case find (isTypeSupported pf)
             [''audio/webm;codecs=opus'', ''audio/mp4'', ''audio/aac'', ''audio/webm'',
              ''audio/ogg''] of
        Some t \<Rightarrow> t
      | None \<Rightarrow> [])"

text \<open>Truthiness of a number: \<open>0\<close> and NaN are falsy.\<close>

definition truthyNum :: "jsnum \<Rightarrow> bool" where
  "truthyNum v = (v \<noteq> Fin 0 \<and> v \<noteq> NaN)"

text \<open>
  \<^verbatim>\<open>#setupEncodedCapture\<close>. \<open>mediaRecorderThrows\<close> is the failure, if any, of the
  statements of its try block (the type probe, the constructor, \<^verbatim>\<open>start\<close>).
\<close>

definition setupEncodedCapture ::
  "string \<Rightarrow> string \<Rightarrow> capture_source \<Rightarrow> string \<Rightarrow> manager \<Rightarrow> exn option \<times> manager" where
  "setupEncodedCapture trackId participant source trackSource s =
     (case audioCaptureOptions s of
        None \<Rightarrow> (None, s)
      | Some opts \<Rightarrow>
         (case opt_callback opts of
            None \<Rightarrow> (None, s)
          | Some callback \<Rightarrow>
             (case mediaRecorderThrows (platform s) of
                Some msg \<Rightarrow>
                  emit (ErrorEvent (''Failed to setup encoded audio capture: '' @ msg)) s
              | None \<Rightarrow>
                  (None,
                   s\<lparr>recorders := AList.update trackId
                        \<lparr>rec_mimeType = getSupportedMimeType (platform s),
                         rec_timeslice = opt_chunkSize opts\<rparr> (recorders s),
                     effects := effects s @ [RecorderStarted trackId]\<rparr>))))"

definition setupScriptProcessorCapture :: "pcm_params \<Rightarrow> manager \<Rightarrow> manager" where
  "setupScriptProcessorCapture params s =
     (if createSourceThrows (platform s) \<or> createProcessorThrows (platform s) then s
      else
        let s1 = s\<lparr>sourceNodes := AList.update (pcm_trackId params) StreamSource (sourceNodes s),
                   processors := AList.update (pcm_trackId params)
                                   (ScriptProcessor (pcm_bufferSize params)) (processors s)\<rparr>
        in if createGainThrows (platform s1) then s1
           else s1\<lparr>processors :=
                     AList.update (pcm_trackId params @ ''_gain'') GainNode (processors s1)\<rparr>)"

text \<open>
  \<^verbatim>\<open>#setupAudioWorkletCapture\<close> is asynchronous. Up to its \<^verbatim>\<open>await\<close> it starts the
  registration of the worklet unless one is in flight; the rest runs when the
  registration promise settles (\<open>resumeWorkletCapture\<close>), and falls back to the script
  processor on any failure.
\<close>

definition setupAudioWorkletCapture :: "pcm_params \<Rightarrow> manager \<Rightarrow> manager" where
  "setupAudioWorkletCapture params s =
     (let s1 = (if \<not> workletReady s
                then s\<lparr>workletReady := True, effects := effects s @ [WorkletModuleAdded]\<rparr>
                else s)
      in s1\<lparr>pendingWorklet := pendingWorklet s1 @ [params]\<rparr>)"

definition resumeWorkletCapture :: "pcm_params \<Rightarrow> manager \<Rightarrow> manager" where
  "resumeWorkletCapture params s =
     (if addModuleFails (platform s) \<or> createSourceThrows (platform s)
         \<or> workletNodeThrows (platform s)
      then setupScriptProcessorCapture params (s\<lparr>workletReady := False\<rparr>)
      else
        let s1 = s\<lparr>sourceNodes := AList.update (pcm_trackId params) StreamSource (sourceNodes s),
                   processors := AList.update (pcm_trackId params)
                                   (WorkletNode (pcm_bufferSize params)) (processors s)\<rparr>
        in if createGainThrows (platform s1)
           then setupScriptProcessorCapture params (s1\<lparr>workletReady := False\<rparr>)
           else s1\<lparr>processors :=
                     AList.update (pcm_trackId params @ ''_gain'') GainNode (processors s1)\<rparr>)"

definition runPendingWorklet :: "manager \<Rightarrow> manager" where
  "runPendingWorklet s =
     (case pendingWorklet s of
        [] \<Rightarrow> s
      | params # rest \<Rightarrow> resumeWorkletCapture params (s\<lparr>pendingWorklet := rest\<rparr>))"

definition setupPCMCapture ::
  "string \<Rightarrow> string \<Rightarrow> capture_source \<Rightarrow> capture_format \<Rightarrow> string \<Rightarrow> manager
     \<Rightarrow> exn option \<times> manager" where
  "setupPCMCapture trackId participant source format trackSource s =
     (case audioCaptureOptions s of
        None \<Rightarrow> (None, s)
      | Some opts \<Rightarrow>
         (case opt_callback opts of
            None \<Rightarrow> (None, s)
          | Some callback \<Rightarrow>
             let bufferSize = (case opt_bufferSize opts of
                                 Some b \<Rightarrow> if truthyNum b then b else DEFAULT_PCM_BUFFER_SIZE
                               | None \<Rightarrow> DEFAULT_PCM_BUFFER_SIZE);
                 s1 = ensureAudioContext s
             in (case audioContext s1 of
                   None \<Rightarrow>
                     emit (ErrorEvent (''Failed to setup PCM audio capture: ''
                             @ ''WebAudio is not supported in this environment'')) s1
                 | Some ctx \<Rightarrow>
                     (let params = \<lparr> pcm_trackId = trackId, pcm_participant = participant,
                                     pcm_source = source, pcm_trackSource = trackSource,
                                     pcm_format = format, pcm_bufferSize = bufferSize,
                                     pcm_callback = callback \<rparr>
                      in if hasAudioWorklet (platform s1)
                         then (None, setupAudioWorkletCapture params s1)
                         else (None, setupScriptProcessorCapture params s1)))))"

definition setupTrackCapture ::
  "string \<Rightarrow> string \<Rightarrow> capture_source \<Rightarrow> capture_format \<Rightarrow> manager \<Rightarrow> exn option \<times> manager" where
  "setupTrackCapture trackId participant source format s =
     (if audioCaptureOptions s = None then (None, s)
      else case getTrackById trackId s of
        None \<Rightarrow> (None, s)
      | Some t \<Rightarrow>
         (case tr_mediaStreamTrack t of
            None \<Rightarrow> (None, s)
          | Some mediaTrack \<Rightarrow>
             if mapHas (trackCaptureMap s) trackId then (None, s)
             else
               let trackSource = getTrackSourceString (tr_source t);
                   s1 = s\<lparr>trackCaptureMap := AList.update trackId
                            \<lparr>cap_participant = participant, cap_source = source\<rparr>
                            (trackCaptureMap s)\<rparr>;
                   clonedTrack = \<lparr>mst_id = cloneId (platform s1) (mst_id mediaTrack)\<rparr>;
                   s2 = s1\<lparr>clonedTracks := AList.update trackId clonedTrack (clonedTracks s1),
                           effects := effects s1 @ [TrackCloned trackId]\<rparr>
               in if format = OpusWebm
                  then setupEncodedCapture trackId participant source trackSource s2
                  else setupPCMCapture trackId participant source format trackSource s2))"

text \<open>The role of a participant: \<open>agent\<close> if its identity contains that word in any
  case, \<open>user\<close> otherwise.\<close>

definition roleOf :: "string \<Rightarrow> capture_source" where
  "roleOf ident = (if js_includes (toLowerCase ident) ''agent'' then Agent else User)"

definition setupAudioCaptureIfEnabled ::
  "track \<Rightarrow> participant \<Rightarrow> manager \<Rightarrow> exn option \<times> manager" where
  "setupAudioCaptureIfEnabled t p s =
     (case audioCaptureOptions s of
        None \<Rightarrow> (None, s)
      | Some opts \<Rightarrow>
         if \<not> audioCaptureEnabled s then (None, s)
         else
           let trackId = trackKey t;
               trackSource = roleOf (identity p)
           in if opt_source opts \<noteq> Some Both \<and> opt_source opts \<noteq> Some trackSource
              then (None, s)
              else if opt_trackSourceFilter opts \<noteq> Some ''all'' \<and>
                      opt_trackSourceFilter opts \<noteq> Some (getTrackSourceString (tr_source t))
              then (None, s)
              else (case opt_format opts of
                      None \<Rightarrow> (None, s)
                    | Some format \<Rightarrow>
                        setupTrackCapture trackId (orUnknown (identity p)) trackSource format s))"

text \<open>The loop of \<^verbatim>\<open>#setupExistingTrackCapture\<close> over the entries of the registry;
  an exception of a set-up leaves the loop.\<close>

fun captureExisting ::
  "capture_source option \<Rightarrow> capture_format \<Rightarrow> string option
     \<Rightarrow> (string \<times> track_stats_data) list \<Rightarrow> manager \<Rightarrow> exn option \<times> manager" where
  "captureExisting source format trackSourceFilter [] s = (None, s)"
| "captureExisting source format trackSourceFilter ((trackId, trackData) # rest) s =
     (let trackSource = roleOf (ts_participant trackData)
      in if source \<noteq> Some Both \<and> source \<noteq> Some trackSource
         then captureExisting source format trackSourceFilter rest s
         else if trackSourceFilter \<noteq> Some ''all'' \<and>
                 trackSourceFilter \<noteq> Some (ts_source trackData)
         then captureExisting source format trackSourceFilter rest s
         else (case setupTrackCapture trackId (ts_participant trackData) trackSource format s of
                 (Some x, s') \<Rightarrow> (Some x, s')
               | (None, s') \<Rightarrow> captureExisting source format trackSourceFilter rest s'))"

definition setupExistingTrackCapture :: "manager \<Rightarrow> exn option \<times> manager" where
  "setupExistingTrackCapture s =
     (case audioCaptureOptions s of
        None \<Rightarrow> (None, s)
      | Some opts \<Rightarrow>
         (case opt_format opts of
            None \<Rightarrow> (None, s)
          | Some format \<Rightarrow>
              captureExisting (opt_source opts) format (opt_trackSourceFilter opts)
                (trackStats s) s))"

text \<open>The options that \<^verbatim>\<open>enableAudioCapture\<close> stores: \<^verbatim>\<open>given || default\<close> for
  every field.\<close>

definition normalizeOptions :: "capture_options \<Rightarrow> callback \<Rightarrow> capture_options" where
  "normalizeOptions options callback =
     \<lparr> opt_source = Some (case opt_source options of Some src \<Rightarrow> src | None \<Rightarrow> Agent),
       opt_trackSourceFilter =
         Some (case opt_trackSourceFilter options of
                 Some f \<Rightarrow> if f \<noteq> [] then f else ''microphone''
               | None \<Rightarrow> ''microphone''),
       opt_format = Some (case opt_format options of Some f \<Rightarrow> f | None \<Rightarrow> OpusWebm),
       opt_chunkSize =
         Some (case opt_chunkSize options of
                 Some c \<Rightarrow> if truthyNum c then c else DEFAULT_CHUNK_SIZE
               | None \<Rightarrow> DEFAULT_CHUNK_SIZE),
       opt_bufferSize =
         Some (case opt_bufferSize options of
                 Some b \<Rightarrow> if truthyNum b then b else DEFAULT_BUFFER_SIZE
               | None \<Rightarrow> DEFAULT_BUFFER_SIZE),
       opt_callback = Some callback,
       opt_onData = None \<rparr>"

definition enableAudioCapture :: "capture_options \<Rightarrow> manager \<Rightarrow> exn option \<times> manager" where
  \<open>enableAudioCapture options s =
     (case (case opt_callback options of Some c \<Rightarrow> Some c | None \<Rightarrow> opt_onData options) of
        None \<Rightarrow>
          (Some (Error ''Audio capture requires either "callback" or "onData" option''), s)
      | Some callback \<Rightarrow>
          setupExistingTrackCapture
            (s\<lparr>audioCaptureEnabled := True,
               audioCaptureOptions := Some (normalizeOptions options callback)\<rparr>))\<close>


section \<open>Subscription and unsubscription\<close>

definition setupAudioElement ::
  "track \<Rightarrow> publication \<Rightarrow> participant \<Rightarrow> manager \<Rightarrow> exn option \<times> manager" where
  "setupAudioElement t pub p s =
     (case tr_attach t of
        None \<Rightarrow> (None, s)
      | Some audioElement \<Rightarrow>
         (case setElementVolume (volume s) audioElement of
            Inl x \<Rightarrow> (Some x, s)
          | Inr e1 \<Rightarrow>
             (let e2 = setupAudioMonitoring (e1\<lparr>el_autoplay := True\<rparr>);
                  s1 = s\<lparr>audioElements := setAdd e2 (audioElements s)\<rparr>
              in (case emitTrackSubscribed t pub p s1 of
                    (Some x, s2) \<Rightarrow> (Some x, s2)
                  | (None, s2) \<Rightarrow>
                      setupAudioCaptureIfEnabled t p
                        (attachAudioElementToDOM (el_handle e2) s2)))))"

text \<open>\<open>now\<close> is the value of \<^verbatim>\<open>Date.now()\<close> when the event is handled.\<close>

definition handleTrackSubscribed ::
  "track \<Rightarrow> publication \<Rightarrow> participant \<Rightarrow> nat \<Rightarrow> manager \<Rightarrow> exn option \<times> manager" where
  "handleTrackSubscribed t pub p now s =
     (if tr_kind t = Audio
      then (case setupAudioElement t pub p (recordTrackStats t pub p now s) of
              (Some x, s') \<Rightarrow> (Some x, s')
            | (None, s') \<Rightarrow> setupAudioCaptureIfEnabled t p s')
      else (None, s))"

definition handleLocalTrackPublished ::
  "track \<Rightarrow> publication \<Rightarrow> participant \<Rightarrow> nat \<Rightarrow> manager \<Rightarrow> exn option \<times> manager" where
  "handleLocalTrackPublished t pub p now s =
     (if tr_kind t = Audio
      then setupAudioCaptureIfEnabled t p (recordTrackStats t pub p now s)
      else (None, s))"

definition cleanupTrackMetadata :: "track \<Rightarrow> manager \<Rightarrow> manager" where
  "cleanupTrackMetadata t s = s\<lparr>trackStats := AList.delete (trackKey t) (trackStats s)\<rparr>"

text \<open>Removing an element from its parent node; the caller catches the exception.\<close>

definition removeFromParent :: "platform \<Rightarrow> audio_element \<Rightarrow> exn + effect list" where
  "removeFromParent pf e =
     (if el_parent e
      then (if throwing pf (ElementRemoved (el_handle e)) then Inl (Error ''removeChild'')
            else Inr [ElementRemoved (el_handle e)])
      else Inr [])"

definition ignoringErrors :: "exn + effect list \<Rightarrow> effect list" where
  "ignoringErrors r = (case r of Inl _ \<Rightarrow> [] | Inr effs \<Rightarrow> effs)"

fun detachTrackElements :: "audio_element list \<Rightarrow> manager \<Rightarrow> manager" where
  "detachTrackElements [] s = s"
| "detachTrackElements (element # rest) s =
     detachTrackElements rest
       (s\<lparr>effects := effects s @ ignoringErrors (removeFromParent (platform s) element),
          audioElements := filter (\<lambda>e. el_handle e \<noteq> el_handle element) (audioElements s)\<rparr>)"

definition handleTrackUnsubscribed ::
  "track \<Rightarrow> publication \<Rightarrow> participant \<Rightarrow> manager \<Rightarrow> exn option \<times> manager" where
  "handleTrackUnsubscribed t pub p s =
     (if tr_kind t \<noteq> Audio then (None, s)
      else
        let s1 = cleanupTrackMetadata t s;
            s2 = (case tr_detach t of
                    Some elements \<Rightarrow> detachTrackElements elements s1
                  | None \<Rightarrow> s1)
        in emit (TrackUnsubscribed (trackKey t) (orUnknown (identity p))) s2)"

definition handleLocalTrackUnsubscribed ::
  "track \<Rightarrow> publication \<Rightarrow> participant \<Rightarrow> manager \<Rightarrow> exn option \<times> manager" where
  "handleLocalTrackUnsubscribed t pub p s = handleTrackUnsubscribed t pub p s"

definition getTrackStats :: "manager \<Rightarrow> track_stats_result" where
  "getTrackStats s =
     \<lparr> totalTracks = length (trackStats s),
       activeTracks = length (trackStats s),
       audioElementCount = length (audioElements s),
       trackDetails = trackStats s \<rparr>"

section \<open>Teardown\<close>

text \<open>The stop and disconnect calls of the teardown.\<close>

definition stopCall :: "platform \<Rightarrow> effect \<Rightarrow> exn + effect list" where
  "stopCall pf eff = (if throwing pf eff then Inl (Error ''stop'') else Inr [eff])"

definition disconnectCall :: "platform \<Rightarrow> effect \<Rightarrow> exn + effect list" where
  "disconnectCall pf eff = (if throwing pf eff then Inl (Error ''disconnect'') else Inr [eff])"

text \<open>
  \<^verbatim>\<open>#cleanupAudioCapture\<close>. The stops and disconnects are made inside try blocks.
  The call \<^verbatim>\<open>ctx.close().catch(...)\<close> is not: the handler only takes a rejection
  of the promise, so when \<^verbatim>\<open>close\<close> throws (or is not there to be called) the
  exception leaves the method, after the collections are cleared and before the
  context reference is.
\<close>

definition cleanupAudioCapture :: "manager \<Rightarrow> exn option \<times> manager" where
  "cleanupAudioCapture s =
     (let pf = platform s;
          stopped = concat (map (\<lambda>(k, r). ignoringErrors (stopCall pf (RecorderStopped k)))
                              (recorders s));
          disconnected =
            concat (map (\<lambda>(k, n). ignoringErrors (disconnectCall pf (NodeDisconnected k)))
                      (processors s));
          sources =
            concat (map (\<lambda>(k, n). ignoringErrors (disconnectCall pf (SourceDisconnected k)))
                      (sourceNodes s));
          clones = concat (map (\<lambda>(k, c). ignoringErrors (stopCall pf (CloneStopped k)))
                             (clonedTracks s));
          s1 = s\<lparr>workletReady := False,
                 recorders := [],
                 processors := [],
                 sourceNodes := [],
                 clonedTracks := [],
                 trackCaptureMap := [],
                 effects := effects s @ stopped @ disconnected @ sources @ clones\<rparr>
      in case audioContext s1 of
           None \<Rightarrow> (None, s1)
         | Some ctx \<Rightarrow>
             if ctx_state ctx \<noteq> Closed
             then (if throwing pf ContextClosed then (Some (Error ''close''), s1)
                   else (None, s1\<lparr>audioContext := None,
                                  effects := effects s1 @ [ContextClosed]\<rparr>))
             else (None, s1\<lparr>audioContext := None\<rparr>))"

definition disableAudioCapture :: "manager \<Rightarrow> exn option \<times> manager" where
  "disableAudioCapture s =
     (case cleanupAudioCapture (s\<lparr>audioCaptureEnabled := False\<rparr>) of
        (Some x, s') \<Rightarrow> (Some x, s')
      | (None, s') \<Rightarrow> (None, s'\<lparr>audioCaptureOptions := None, workletReady := False\<rparr>))"

definition cleanup :: "manager \<Rightarrow> exn option \<times> manager" where
  "cleanup s =
     (case cleanupAudioCapture s of
        (Some x, s1) \<Rightarrow> (Some x, s1)
      | (None, s1) \<Rightarrow>
          (let removed = concat (map (\<lambda>e. ignoringErrors (removeFromParent (platform s1) e))
                                   (audioElements s1))
           in (None, s1\<lparr>effects := effects s1 @ removed, audioElements := [],
                         trackStats := []\<rparr>)))"


section \<open>Collaborator calls, example values\<close>

text \<open>\<^verbatim>\<open>setRoom\<close>, and \<^verbatim>\<open>on\<close> of the event emitter.\<close>

definition setRoom :: "room option \<Rightarrow> manager \<Rightarrow> manager" where
  "setRoom r s = s\<lparr>room := r\<rparr>"

definition addListener :: "event_name \<Rightarrow> listener \<Rightarrow> manager \<Rightarrow> manager" where
  "addListener name l s = s\<lparr>listeners := (listeners s)(name := listeners s name @ [l])\<rparr>"

text \<open>A browser in which every platform call succeeds, and one without
  \<^verbatim>\<open>MediaRecorder\<close>.\<close>

definition browser :: platform where
  "browser =
     \<lparr> audioContextCtor = Constructs Running, analyserBins = [255, 255],
       createSourceThrows = False, createAnalyserThrows = False,
       createProcessorThrows = False, createGainThrows = False, hasAudioWorklet = False,
       addModuleFails = False, workletNodeThrows = False, mediaRecorderThrows = None,
       isTypeSupported = (\<lambda>t. t = ''audio/webm''), throwing = (\<lambda>_. False),
       cloneId = (\<lambda>i. i @ ''-clone'') \<rparr>"

definition browserWithoutRecorder :: platform where
  "browserWithoutRecorder =
     browser\<lparr>mediaRecorderThrows := Some ''MediaRecorder is not defined''\<rparr>"

text \<open>An agent's and a user's microphone track, each with the audio element that it
  attaches and detaches, their publication and participants, and a room that holds
  both tracks.\<close>

definition newElement :: "nat \<Rightarrow> audio_element" where
  "newElement h =
     \<lparr> el_handle = h, el_volume = Fin 1, el_autoplay = False, el_hidden = False,
       el_parent = False, el_monitors = [] \<rparr>"

definition agentTrack :: track where
  "agentTrack =
     \<lparr> tr_sid = Some ''TR_agent'', tr_mediaStreamTrack = Some \<lparr>mst_id = ''mst-agent''\<rparr>,
       tr_kind = Audio, tr_source = Microphone,
       tr_attach = Some (newElement 1), tr_detach = Some [newElement 1] \<rparr>"

definition userTrack :: track where
  "userTrack =
     \<lparr> tr_sid = Some ''TR_user'', tr_mediaStreamTrack = Some \<lparr>mst_id = ''mst-user''\<rparr>,
       tr_kind = Audio, tr_source = Microphone,
       tr_attach = Some (newElement 2), tr_detach = Some [newElement 2] \<rparr>"

definition micPublication :: publication where
  "micPublication =
     \<lparr> pub_source = Microphone, pub_isMuted = False, pub_isEnabled = True,
       pub_dimensions = None, pub_simulcasted = None \<rparr>"

definition agentParticipant :: participant where
  "agentParticipant = \<lparr> identity = ''Voice-Agent-7'' \<rparr>"

definition userParticipant :: participant where
  "userParticipant = \<lparr> identity = ''alice'' \<rparr>"

text \<open>
  \<^verbatim>\<open>getTrackPublication\<close> of a participant of livekit-client, for a participant
  whose microphone publication leads to the media track \<open>mic\<close>: the method reads
  \<^verbatim>\<open>this.trackPublications\<close>, so it throws a type error when it is called detached.
  And a method of a stand-in room that does not read \<^verbatim>\<open>this\<close>.
\<close>

definition livekitGetTrackPublication ::
  "media_stream_track option \<Rightarrow> receiver \<Rightarrow> mic_arg \<Rightarrow> media_stream_track option call" where
  "livekitGetTrackPublication mic this arg =
     (case this of
        OnParticipant \<Rightarrow> Returns mic
      | Detached \<Rightarrow> Raises ''Cannot read properties of undefined'')"

definition unboundGetTrackPublication ::
  "media_stream_track option \<Rightarrow> receiver \<Rightarrow> mic_arg \<Rightarrow> media_stream_track option call" where
  "unboundGetTrackPublication mic this arg = Returns mic"

definition exampleRoom :: room where
  "exampleRoom =
     \<lparr> remoteParticipants = [[Some agentTrack], [Some userTrack]],
       localParticipant =
         Some \<lparr> lp_trackPublications = [],
                lp_getTrackPublication =
                  Some (livekitGetTrackPublication (Some \<lparr>mst_id = ''mst-local-mic''\<rparr>)) \<rparr> \<rparr>"

definition standInRoom :: room where
  "standInRoom =
     \<lparr> remoteParticipants = [],
       localParticipant =
         Some \<lparr> lp_trackPublications = [],
                lp_getTrackPublication =
                  Some (unboundGetTrackPublication (Some \<lparr>mst_id = ''mst-local-mic''\<rparr>)) \<rparr> \<rparr>"

definition callbackOnly :: capture_options where
  "callbackOnly =
     \<lparr> opt_source = None, opt_trackSourceFilter = None, opt_format = None,
       opt_chunkSize = None, opt_bufferSize = None, opt_callback = Some (Callback 0),
       opt_onData = None \<rparr>"

text \<open>A session in a browser without \<^verbatim>\<open>MediaRecorder\<close>: the room is set and the
  agent's track is subscribed; no listener is registered.\<close>

definition recorderlessSession :: manager where
  "recorderlessSession =
     snd (handleTrackSubscribed agentTrack micPublication agentParticipant 0
            (setRoom (Some exampleRoom) (newManager browserWithoutRecorder)))"

text \<open>A new manager whose only listener, for \<open>volumeChanged\<close>, throws.\<close>

definition throwingVolumeListener :: manager where
  "throwingVolumeListener =
     addListener EvVolumeChanged (ListenerThrows ''boom'') (newManager browser)"

text \<open>A manager in the example room with capture armed before any track is subscribed.\<close>

definition armedManager :: manager where
  "armedManager =
     snd (enableAudioCapture callbackOnly (setRoom (Some exampleRoom) (newManager browser)))"

text \<open>A manager in the example room with both tracks subscribed, capture not armed.\<close>

definition twoTracks :: manager where
  "twoTracks =
     snd (handleTrackSubscribed userTrack micPublication userParticipant 20
       (snd (handleTrackSubscribed agentTrack micPublication agentParticipant 10
          (setRoom (Some exampleRoom) (newManager browser)))))"

text \<open>The registry record of the user's track in \<open>twoTracks\<close>.\<close>

definition userRecord :: track_stats_data where
  "userRecord =
     \<lparr> ts_trackId = ''TR_user'', ts_kind = Audio, ts_participant = ''alice'',
       ts_subscriptionTime = 20, ts_publication = micPublication,
       ts_source = ''microphone'', ts_muted = False, ts_enabled = True,
       ts_dimensions = None, ts_simulcasted = None \<rparr>"

text \<open>
  A manager whose agent track was subscribed, unsubscribed and subscribed again, the
  second \<^verbatim>\<open>attach()\<close> handing out the audio element of the first, as the first
  subscription left it and out of the document (livekit-client keeps a detached audio
  element and attaches it to the next audio track).
\<close>

definition resubscribed :: manager where
  "resubscribed =
     (let s1 = snd (handleTrackSubscribed agentTrack micPublication agentParticipant 10
                 (newManager browser));
          element = hd (audioElements s1);
          s2 = snd (handleTrackUnsubscribed (agentTrack\<lparr>tr_detach := Some [element]\<rparr>)
                 micPublication agentParticipant s1)
      in snd (handleTrackSubscribed
                (agentTrack\<lparr>tr_attach := Some (element\<lparr>el_parent := False\<rparr>)\<rparr>)
                micPublication agentParticipant 30 s2))"



text \<open>A new manager in the example room, whose local participant has published the
  microphone; and one in the stand-in room, in a browser whose analyser reports the
  given bins.\<close>

definition micSession :: manager where
  "micSession = setRoom (Some exampleRoom) (newManager browser)"

definition standInSession :: "8 word list \<Rightarrow> manager" where
  "standInSession bins =
     setRoom (Some standInRoom) (newManager (browser\<lparr>analyserBins := bins\<rparr>))"


section \<open>What a set-up leaves unchanged\<close>

text \<open>Two relations between the manager before and after a step, used in the proofs:
  the configuration and the playback state are the same; the capture sessions and the
  clones made are the same.\<close>

definition sameConfig :: "manager \<Rightarrow> manager \<Rightarrow> bool" where
  "sameConfig s s' =
     (audioCaptureOptions s' = audioCaptureOptions s \<and>
      audioCaptureEnabled s' = audioCaptureEnabled s \<and>
      trackStats s' = trackStats s \<and> room s' = room s \<and> platform s' = platform s \<and>
      listeners s' = listeners s \<and> audioElements s' = audioElements s \<and>
      volume s' = volume s \<and> inputAnalyser s' = inputAnalyser s)"

definition sameSessions :: "manager \<Rightarrow> manager \<Rightarrow> bool" where
  "sameSessions s s' =
     (trackCaptureMap s' = trackCaptureMap s \<and> clonedTracks s' = clonedTracks s \<and>
      (\<forall>i. count_list (effects s') (TrackCloned i) = count_list (effects s) (TrackCloned i)))"

definition sameCapture :: "manager \<Rightarrow> manager \<Rightarrow> bool" where
  "sameCapture s s' =
     (audioCaptureOptions s' = audioCaptureOptions s \<and>
      audioCaptureEnabled s' = audioCaptureEnabled s \<and>
      trackCaptureMap s' = trackCaptureMap s \<and> clonedTracks s' = clonedTracks s \<and>
      recorders s' = recorders s \<and> processors s' = processors s \<and>
      sourceNodes s' = sourceNodes s \<and> pendingWorklet s' = pendingWorklet s \<and>
      room s' = room s \<and> platform s' = platform s \<and>
      (\<forall>i. count_list (effects s') (TrackCloned i) = count_list (effects s) (TrackCloned i)))"

section \<open>The specification's wording, for comparison\<close>

text \<open>The stored volume as the specification words it: the level clamped to
  \<open>[0, 1]\<close>, and 0 for a level that is not finite.\<close>

definition spec_volume :: "jsnum \<Rightarrow> real" where
  "spec_volume v = (case v of Fin x \<Rightarrow> min 1 (max 0 x) | _ \<Rightarrow> 0)"

text \<open>The transition table of the specification for one sink: the events emitted for a
  sequence of play, pause and ended notifications, from a given speaking state.\<close>

fun spec_activity :: "bool \<Rightarrow> media_event list \<Rightarrow> event list" where
  "spec_activity speaking [] = []"
| "spec_activity speaking (Play # evs) =
     (if speaking then [] else [Speaking]) @ spec_activity True evs"
| "spec_activity speaking (Pause # evs) = Listening # spec_activity False evs"
| "spec_activity speaking (Ended # evs) = Listening # spec_activity False evs"

text \<open>The stored options as the specification words them: the given value of a field,
  or its default when the field is omitted.\<close>

definition spec_storedOptions :: "capture_options \<Rightarrow> callback \<Rightarrow> capture_options" where
  "spec_storedOptions options callback =
     \<lparr> opt_source = Some (case opt_source options of Some x \<Rightarrow> x | None \<Rightarrow> Agent),
       opt_trackSourceFilter =
         Some (case opt_trackSourceFilter options of Some f \<Rightarrow> f | None \<Rightarrow> ''microphone''),
       opt_format = Some (case opt_format options of Some f \<Rightarrow> f | None \<Rightarrow> OpusWebm),
       opt_chunkSize = Some (case opt_chunkSize options of Some c \<Rightarrow> c | None \<Rightarrow> Fin 100),
       opt_bufferSize = Some (case opt_bufferSize options of Some b \<Rightarrow> b | None \<Rightarrow> Fin 2048),
       opt_callback = Some callback,
       opt_onData = None \<rparr>"

section \<open>Sample conversion: truncation, not rounding\<close>

lemma clamp_Fin:
  "math_max (Fin (- 1)) (math_min (Fin 1) (Fin x)) = Fin (max (- 1) (min 1 x))"
  by (auto simp: math_max_def math_min_def max_def min_def)

lemma js_trunc_bounds:
  assumes "\<bar>r\<bar> \<le> 32767"
  shows "- 32767 \<le> js_trunc r \<and> js_trunc r \<le> 32767"
  using assms unfolding js_trunc_def
  by (auto simp: le_floor_iff floor_le_iff ceiling_le_iff le_ceiling_iff)

lemma sint_int16:
  "- 32767 \<le> k \<Longrightarrow> k \<le> 32767 \<Longrightarrow> sint (word_of_int k :: 16 word) = k"
  by (simp add: sint_sbintrunc' signed_take_bit_int_eq_self)

lemma convertSample_Fin:
  "sint (convertSample (Fin x)) = js_trunc (max (- 1) (min 1 x) * 32767)"
proof -
  let ?c = "max (- 1) (min 1 x) * 32767"
  have "\<bar>?c\<bar> \<le> 32767"
    by (auto simp: max_def min_def abs_if)
  then have "- 32767 \<le> js_trunc ?c \<and> js_trunc ?c \<le> 32767"
    by (rule js_trunc_bounds)
  then show ?thesis
    by (simp add: convertSample_def clamp_Fin toInt16_def INT16_SCALE_def sint_int16)
qed

text \<open>
  C2, as the code has it. The output has the length of the input, and for every finite
  input sample \<open>x\<close> the output element is \<open>clamp(x, -1, 1) \<times> 32767\<close> with its fraction
  cut off (rounded towards zero, which is what the store into the \<^verbatim>\<open>Int16Array\<close>
  does; the product always fits 16 bits, so nothing wraps). The samples \<open>1.0\<close>, \<open>-1.0\<close>
  and \<open>2.0\<close> give \<open>32767\<close>, \<open>-32767\<close> and \<open>32767\<close>.
\<close>

theorem float32ToInt16_truncates:
  assumes "i < length buffer" and "buffer ! i = Fin x"
  shows "length (float32ToInt16 buffer) = length buffer \<and>
         sint (float32ToInt16 buffer ! i) = js_trunc (max (- 1) (min 1 x) * 32767) \<and>
         float32ToInt16 [Fin 1, Fin (- 1), Fin 2] = [32767, - 32767, 32767]"
proof (intro conjI)
  show "length (float32ToInt16 buffer) = length buffer"
    by (simp add: float32ToInt16_def)
next
  show "sint (float32ToInt16 buffer ! i) = js_trunc (max (- 1) (min 1 x) * 32767)"
    using assms by (simp add: float32ToInt16_def convertSample_Fin)
next
  show "float32ToInt16 [Fin 1, Fin (- 1), Fin 2] = [32767, - 32767, 32767]"
    by (simp add: float32ToInt16_def convertSample_def math_max_def math_min_def
        toInt16_def INT16_SCALE_def js_trunc_def)
qed

text \<open>The sample \<open>0.375\<close>: the product is \<open>12287.625\<close>, the element stored is \<open>12287\<close>.\<close>

theorem float32ToInt16_truncates_witness:
  "(0::nat) < length [Fin (3 / 8)] \<and> [Fin (3 / 8)] ! 0 = Fin (3 / 8) \<and>
   sint (float32ToInt16 [Fin (3 / 8)] ! 0) = 12287"
  using float32ToInt16_truncates [of 0 "[Fin (3 / 8)]" "3 / 8"]
  by (simp add: js_trunc_def)

text \<open>
  C2, as the specification words it (round to nearest), fails at the same sample:
  rounding \<open>12287.625\<close> gives \<open>12288\<close>.
\<close>

theorem float32ToInt16_round_counterexample:
  "sint (float32ToInt16 [Fin (3 / 8)] ! 0) \<noteq> spec_round_sample (3 / 8)"
  by (simp add: float32ToInt16_def convertSample_def math_max_def math_min_def
      toInt16_def INT16_SCALE_def js_trunc_def spec_round_sample_def round_def)

section \<open>Emissions\<close>

lemma emitted_emit [simp]: "emitted (snd (emit ev s)) = emitted s @ [ev]"
  by (simp add: emit_def Let_def split: list.split event.split)

section \<open>Frame lemmas\<close>

lemma sameConfig_refl [simp]: "sameConfig s s"
  by (simp add: sameConfig_def)

lemma sameConfig_trans: "sameConfig s s' \<Longrightarrow> sameConfig s' s'' \<Longrightarrow> sameConfig s s''"
  by (simp add: sameConfig_def)

lemma sameSessions_refl [simp]: "sameSessions s s"
  by (simp add: sameSessions_def)

lemma sameSessions_trans: "sameSessions s s' \<Longrightarrow> sameSessions s' s'' \<Longrightarrow> sameSessions s s''"
  by (simp add: sameSessions_def)

lemma emit_sameConfig [simp]: "sameConfig s (snd (emit ev s))"
  by (simp add: emit_def sameConfig_def Let_def split: list.split event.split)

lemma emit_sameSessions [simp]: "sameSessions s (snd (emit ev s))"
  by (simp add: emit_def sameSessions_def Let_def split: list.split event.split)

lemma ensureAudioContext_sameConfig [simp]: "sameConfig s (ensureAudioContext s)"
  by (simp add: ensureAudioContext_def sameConfig_def split: ctor_behaviour.split)

lemma ensureAudioContext_sameSessions [simp]: "sameSessions s (ensureAudioContext s)"
  by (simp add: ensureAudioContext_def sameSessions_def split: ctor_behaviour.split)

lemma setupScriptProcessorCapture_sameConfig [simp]:
  "sameConfig s (setupScriptProcessorCapture params s)"
  by (simp add: setupScriptProcessorCapture_def sameConfig_def Let_def)

lemma setupScriptProcessorCapture_sameSessions [simp]:
  "sameSessions s (setupScriptProcessorCapture params s)"
  by (simp add: setupScriptProcessorCapture_def sameSessions_def Let_def)

lemma setupAudioWorkletCapture_sameConfig [simp]:
  "sameConfig s (setupAudioWorkletCapture params s)"
  by (simp add: setupAudioWorkletCapture_def sameConfig_def Let_def)

lemma setupAudioWorkletCapture_sameSessions [simp]:
  "sameSessions s (setupAudioWorkletCapture params s)"
  by (simp add: setupAudioWorkletCapture_def sameSessions_def Let_def)

lemma setupEncodedCapture_sameConfig [simp]:
  "sameConfig s (snd (setupEncodedCapture i p src tsrc s))"
  by (simp add: setupEncodedCapture_def split: option.split) (simp add: sameConfig_def)

lemma setupEncodedCapture_sameSessions [simp]:
  "sameSessions s (snd (setupEncodedCapture i p src tsrc s))"
  by (simp add: setupEncodedCapture_def split: option.split) (simp add: sameSessions_def)

lemma setupPCMCapture_sameConfig [simp]:
  "sameConfig s (snd (setupPCMCapture i p src fmt tsrc s))"
  by (auto simp: setupPCMCapture_def Let_def split: option.split
      intro: sameConfig_trans [OF ensureAudioContext_sameConfig])

lemma setupPCMCapture_sameSessions [simp]:
  "sameSessions s (snd (setupPCMCapture i p src fmt tsrc s))"
  by (auto simp: setupPCMCapture_def Let_def split: option.split
      intro: sameSessions_trans [OF ensureAudioContext_sameSessions])


lemma setupTrackCapture_sameConfig [simp]:
  "sameConfig s (snd (setupTrackCapture i p src fmt s))"
proof -
  have upd: "sameConfig s (s\<lparr>trackCaptureMap := m, clonedTracks := c, effects := e\<rparr>)" for m c e
    by (simp add: sameConfig_def)
  have a: "sameConfig s (snd (setupEncodedCapture i p src tsrc
             (s\<lparr>trackCaptureMap := m, clonedTracks := c, effects := e\<rparr>)))" for m c e tsrc
    by (rule sameConfig_trans [OF upd setupEncodedCapture_sameConfig])
  have b: "sameConfig s (snd (setupPCMCapture i p src fmt tsrc
             (s\<lparr>trackCaptureMap := m, clonedTracks := c, effects := e\<rparr>)))" for m c e tsrc
    by (rule sameConfig_trans [OF upd setupPCMCapture_sameConfig])
  show ?thesis
    by (simp add: setupTrackCapture_def Let_def a b split: option.split)
qed

lemma setupTrackCapture_captured:
  "mapHas (trackCaptureMap s) i \<Longrightarrow> setupTrackCapture i p src fmt s = (None, s)"
  by (simp add: setupTrackCapture_def split: option.split)

lemma captureExisting_sameConfig [simp]:
  "sameConfig s (snd (captureExisting src fmt flt entries s))"
proof (induction entries arbitrary: s)
  case Nil
  show ?case by simp
next
  case (Cons entry rest)
  obtain i d where entry: "entry = (i, d)" by (cases entry)
  show ?case
  proof (cases "setupTrackCapture i (ts_participant d) (roleOf (ts_participant d)) fmt s")
    case (Pair r s')
    have s': "sameConfig s s'"
      using setupTrackCapture_sameConfig [of s i "ts_participant d" "roleOf (ts_participant d)" fmt]
      by (simp add: Pair)
    have "sameConfig s (snd (captureExisting src fmt flt rest s'))"
      by (rule sameConfig_trans [OF s' Cons.IH])
    then show ?thesis
      using Cons.IH [of s] s' by (auto simp: entry Pair Let_def split: option.split)
  qed
qed

lemma setupExistingTrackCapture_sameConfig [simp]:
  "sameConfig s (snd (setupExistingTrackCapture s))"
  by (simp add: setupExistingTrackCapture_def split: option.split)

section \<open>Arming capture\<close>

lemma enableAudioCapture_stored:
  assumes "(case opt_callback options of Some c \<Rightarrow> Some c | None \<Rightarrow> opt_onData options)
             = Some callback"
  shows "audioCaptureEnabled (snd (enableAudioCapture options s)) = True"
    and "audioCaptureOptions (snd (enableAudioCapture options s))
           = Some (normalizeOptions options callback)"
proof -
  let ?s0 = "s\<lparr>audioCaptureEnabled := True,
               audioCaptureOptions := Some (normalizeOptions options callback)\<rparr>"
  have run: "enableAudioCapture options s = setupExistingTrackCapture ?s0"
    using assms by (simp add: enableAudioCapture_def)
  have "sameConfig ?s0 (snd (setupExistingTrackCapture ?s0))"
    by (rule setupExistingTrackCapture_sameConfig)
  then show "audioCaptureEnabled (snd (enableAudioCapture options s)) = True"
    and "audioCaptureOptions (snd (enableAudioCapture options s))
           = Some (normalizeOptions options callback)"
    by (simp_all add: run sameConfig_def)
qed

text \<open>
  C10, as the code has it. When the options carry a delivery callback under
  \<open>callback\<close> or, failing that, under \<open>onData\<close>, capture is enabled after the call and
  the stored options are: the given source or \<open>agent\<close>; the given track-source filter or
  \<open>microphone\<close>; the given format or \<open>opus-webm\<close>; the given chunk size or 100, the given
  buffer size or 2048; and the callback. A given value that is falsy (a chunk or buffer
  size of 0 or NaN, an empty filter) is replaced by the default as an omitted one is.
\<close>

theorem enableAudioCapture_normalizes:
  assumes "(case opt_callback options of Some c \<Rightarrow> Some c | None \<Rightarrow> opt_onData options)
             = Some callback"
  shows "audioCaptureEnabled (snd (enableAudioCapture options s)) = True \<and>
         audioCaptureOptions (snd (enableAudioCapture options s)) =
           Some \<lparr> opt_source = Some (case opt_source options of Some x \<Rightarrow> x | None \<Rightarrow> Agent),
                  opt_trackSourceFilter =
                    Some (case opt_trackSourceFilter options of
                            Some f \<Rightarrow> if f = [] then ''microphone'' else f
                          | None \<Rightarrow> ''microphone''),
                  opt_format = Some (case opt_format options of Some f \<Rightarrow> f | None \<Rightarrow> OpusWebm),
                  opt_chunkSize =
                    Some (case opt_chunkSize options of
                            Some c \<Rightarrow> if c = Fin 0 \<or> c = NaN then Fin 100 else c
                          | None \<Rightarrow> Fin 100),
                  opt_bufferSize =
                    Some (case opt_bufferSize options of
                            Some b \<Rightarrow> if b = Fin 0 \<or> b = NaN then Fin 2048 else b
                          | None \<Rightarrow> Fin 2048),
                  opt_callback = Some callback,
                  opt_onData = None \<rparr>"
  using enableAudioCapture_stored [OF assms, of s]
  by (simp add: normalizeOptions_def truthyNum_def DEFAULT_CHUNK_SIZE_def
      DEFAULT_BUFFER_SIZE_def split: option.split)

text \<open>Options that give the callback as \<open>onData\<close> and a chunk size of 250.\<close>

theorem enableAudioCapture_normalizes_witness:
  "audioCaptureEnabled (snd (enableAudioCapture
      (callbackOnly\<lparr>opt_callback := None, opt_onData := Some (Callback 7),
                     opt_chunkSize := Some (Fin 250)\<rparr>) (newManager browser))) = True \<and>
   audioCaptureOptions (snd (enableAudioCapture
      (callbackOnly\<lparr>opt_callback := None, opt_onData := Some (Callback 7),
                     opt_chunkSize := Some (Fin 250)\<rparr>) (newManager browser))) =
     Some \<lparr> opt_source = Some Agent, opt_trackSourceFilter = Some ''microphone'',
            opt_format = Some OpusWebm, opt_chunkSize = Some (Fin 250),
            opt_bufferSize = Some (Fin 2048), opt_callback = Some (Callback 7),
            opt_onData = None \<rparr>"
  using enableAudioCapture_normalizes
    [of "callbackOnly\<lparr>opt_callback := None, opt_onData := Some (Callback 7),
                        opt_chunkSize := Some (Fin 250)\<rparr>" "Callback 7" "newManager browser"]
  by (simp add: callbackOnly_def)

text \<open>
  C10, as it is worded (the given value or the default), fails for a given chunk size
  of 0: the stored chunk size is 100.
\<close>

theorem enableAudioCapture_given_zero_counterexample:
  "audioCaptureOptions (snd (enableAudioCapture
      (callbackOnly\<lparr>opt_chunkSize := Some (Fin 0)\<rparr>) (newManager browser)))
   \<noteq> Some (spec_storedOptions (callbackOnly\<lparr>opt_chunkSize := Some (Fin 0)\<rparr>) (Callback 0))"
  using enableAudioCapture_stored(2)
    [of "callbackOnly\<lparr>opt_chunkSize := Some (Fin 0)\<rparr>" "Callback 0" "newManager browser"]
  by (simp add: callbackOnly_def normalizeOptions_def spec_storedOptions_def truthyNum_def
      DEFAULT_CHUNK_SIZE_def)

text \<open>Without a delivery callback the call throws at once: the manager is as it was,
  and nothing is emitted.\<close>

lemma enableAudioCapture_missing_callback:
  \<open>opt_callback options = None \<Longrightarrow> opt_onData options = None \<Longrightarrow>
   enableAudioCapture options s =
     (Some (Error ''Audio capture requires either "callback" or "onData" option''), s)\<close>
  by (simp add: enableAudioCapture_def)

text \<open>When a listener for \<open>error\<close> is registered and none of them throws, the call
  throws exactly when the delivery callback is missing.\<close>

lemma emit_handled:
  assumes "listeners s EvError \<noteq> []" and "runListeners (listeners s EvError) = None"
  shows "fst (emit (ErrorEvent msg) s) = None"
  using assms by (cases "listeners s EvError") (simp_all add: emit_def Let_def)

lemma setupEncodedCapture_handled:
  assumes "listeners s EvError \<noteq> []" and "runListeners (listeners s EvError) = None"
  shows "fst (setupEncodedCapture i p src tsrc s) = None"
  using emit_handled [OF assms]
  by (simp add: setupEncodedCapture_def split: option.split)

lemma setupPCMCapture_handled:
  assumes "listeners s EvError \<noteq> []" and "runListeners (listeners s EvError) = None"
  shows "fst (setupPCMCapture i p src fmt tsrc s) = None"
proof -
  have "listeners (ensureAudioContext s) = listeners s"
    using ensureAudioContext_sameConfig [of s] by (simp add: sameConfig_def)
  then have "fst (emit (ErrorEvent msg) (ensureAudioContext s)) = None" for msg
    using assms by (intro emit_handled) simp_all
  then show ?thesis
    by (simp add: setupPCMCapture_def Let_def split: option.split)
qed

lemma setupTrackCapture_handled:
  assumes "listeners s EvError \<noteq> []" and "runListeners (listeners s EvError) = None"
  shows "fst (setupTrackCapture i p src fmt s) = None"
  using assms
  by (simp add: setupTrackCapture_def Let_def setupEncodedCapture_handled
      setupPCMCapture_handled split: option.split)

lemma captureExisting_handled:
  assumes "listeners s EvError \<noteq> []" and "runListeners (listeners s EvError) = None"
  shows "fst (captureExisting src fmt flt entries s) = None"
  using assms
proof (induction entries arbitrary: s)
  case Nil
  show ?case by simp
next
  case (Cons entry rest)
  obtain i d where entry: "entry = (i, d)" by (cases entry)
  obtain r s' where run:
    "setupTrackCapture i (ts_participant d) (roleOf (ts_participant d)) fmt s = (r, s')"
    by (cases "setupTrackCapture i (ts_participant d) (roleOf (ts_participant d)) fmt s")
  have r: "r = None"
    using setupTrackCapture_handled [OF Cons.prems, of i "ts_participant d"
        "roleOf (ts_participant d)" fmt] by (simp add: run)
  have "listeners s' = listeners s"
    using setupTrackCapture_sameConfig [of s i "ts_participant d" "roleOf (ts_participant d)" fmt]
    by (simp add: run sameConfig_def)
  then have "fst (captureExisting src fmt flt rest s') = None"
    using Cons.prems by (intro Cons.IH) simp_all
  then show ?case
    using Cons.IH [OF Cons.prems] by (auto simp: entry run r Let_def)
qed

lemma enableAudioCapture_handled:
  assumes "listeners s EvError \<noteq> []" and "runListeners (listeners s EvError) = None"
  shows "fst (enableAudioCapture options s) \<noteq> None \<longleftrightarrow>
           opt_callback options = None \<and> opt_onData options = None"
proof (cases "case opt_callback options of Some c \<Rightarrow> Some c | None \<Rightarrow> opt_onData options")
  case None
  then show ?thesis
    by (simp add: enableAudioCapture_def split: option.splits)
next
  case (Some callback)
  have "fst (setupExistingTrackCapture
               (s\<lparr>audioCaptureEnabled := True,
                  audioCaptureOptions := Some (normalizeOptions options callback)\<rparr>)) = None"
    using assms
    by (simp add: setupExistingTrackCapture_def captureExisting_handled split: option.split)
  then show ?thesis
    using Some by (auto simp: enableAudioCapture_def split: option.splits)
qed

text \<open>
  C3 at a failing input. In a browser without \<^verbatim>\<open>MediaRecorder\<close>, with the agent's
  track subscribed and no listener for \<open>error\<close>, \<^verbatim>\<open>enableAudioCapture\<close> is given a
  callback and throws all the same, after it has enabled capture: the catch clause of
  the encoder set-up emits \<open>error\<close>, which nobody handles.
\<close>

theorem enableAudioCapture_throws_with_callback:
  "opt_callback callbackOnly = Some (Callback 0) \<and>
   listeners recorderlessSession EvError = [] \<and>
   fst (enableAudioCapture callbackOnly recorderlessSession)
     = Some (Error ''Failed to setup encoded audio capture: MediaRecorder is not defined'') \<and>
   audioCaptureEnabled recorderlessSession = False \<and>
   audioCaptureEnabled (snd (enableAudioCapture callbackOnly recorderlessSession)) = True"
  by code_simp

section \<open>Volume\<close>

text \<open>What \<^verbatim>\<open>setVolume\<close> does in every state: it stores the clamped level (0 for a
  level that is not finite), gives it to every audio element, and emits
  \<open>volumeChanged\<close> with it; and it returns when no listener of that event throws.\<close>

lemma clamp_volume:
  "math_min MAX_VOLUME (math_max MIN_VOLUME (Fin x)) = Fin (min 1 (max 0 x))"
  by (auto simp: math_min_def math_max_def MAX_VOLUME_def MIN_VOLUME_def min_def max_def)

lemma applyVolume_unit:
  "0 \<le> r \<Longrightarrow> r \<le> 1 \<Longrightarrow>
   applyVolume (Fin r) es = (None, map (\<lambda>e. e\<lparr>el_volume := Fin r\<rparr>) es)"
  by (induction es) (simp_all add: setElementVolume_def)

lemma runListeners_emit:
  "fst (emit ev s) = None \<longleftrightarrow>
   runListeners (listeners s (eventName ev)) = None \<and>
   (listeners s (eventName ev) = [] \<longrightarrow> eventName ev \<noteq> EvError)"
  by (cases ev; cases "listeners s (eventName ev)") (simp_all add: emit_def Let_def)

lemma setVolume_stores:
  "volume (snd (setVolume v s)) = Fin (spec_volume v)"
  "\<forall>e \<in> set (audioElements (snd (setVolume v s))). el_volume e = Fin (spec_volume v)"
  "VolumeChanged (Fin (spec_volume v)) \<in> set (emitted (snd (setVolume v s)))"
  "runListeners (listeners s EvVolumeChanged) = None \<Longrightarrow> fst (setVolume v s) = None"
proof -
  define stored where "stored = spec_volume v"
  let ?s1 = "s\<lparr>volume := Fin stored\<rparr>"
  let ?s2 = "?s1\<lparr>audioElements := map (\<lambda>e. e\<lparr>el_volume := Fin stored\<rparr>) (audioElements s)\<rparr>"
  have range: "0 \<le> stored" "stored \<le> 1"
    by (simp_all add: stored_def spec_volume_def split: jsnum.split)
  have vol: "(if isFinite v then math_min MAX_VOLUME (math_max MIN_VOLUME v) else DEFAULT_VOLUME)
               = Fin stored"
    by (cases v)
      (simp_all add: isFinite_def clamp_volume DEFAULT_VOLUME_def stored_def spec_volume_def)
  have body: "setVolume_try v s = emit (VolumeChanged (Fin stored)) ?s2"
    by (simp add: setVolume_try_def Let_def vol applyVolume_unit [OF range])
  obtain r s3 where em: "emit (VolumeChanged (Fin stored)) ?s2 = (r, s3)"
    by (cases "emit (VolumeChanged (Fin stored)) ?s2")
  have s3: "sameConfig ?s2 s3" "emitted s3 = emitted ?s2 @ [VolumeChanged (Fin stored)]"
    using emit_sameConfig [of ?s2 "VolumeChanged (Fin stored)"]
      emitted_emit [of "VolumeChanged (Fin stored)" ?s2]
    by (simp_all add: em)
  have final: "sameConfig s3 (snd (setVolume v s))"
    "set (emitted s3) \<subseteq> set (emitted (snd (setVolume v s)))"
  proof -
    show "sameConfig s3 (snd (setVolume v s))"
      by (cases r) (auto simp: setVolume_def body em split: exn.split)
    show "set (emitted s3) \<subseteq> set (emitted (snd (setVolume v s)))"
      by (cases r) (auto simp: setVolume_def body em split: exn.split)
  qed
  show "volume (snd (setVolume v s)) = Fin (spec_volume v)"
    using s3(1) final(1) by (simp add: sameConfig_def stored_def)
  show "\<forall>e \<in> set (audioElements (snd (setVolume v s))). el_volume e = Fin (spec_volume v)"
    using s3(1) final(1) by (simp add: sameConfig_def stored_def)
  show "VolumeChanged (Fin (spec_volume v)) \<in> set (emitted (snd (setVolume v s)))"
    using s3(2) final(2) by (auto simp: stored_def)
  show "fst (setVolume v s) = None" if "runListeners (listeners s EvVolumeChanged) = None"
  proof -
    have "fst (emit (VolumeChanged (Fin stored)) ?s2) = None"
      using that by (simp add: runListeners_emit)
    then show ?thesis
      by (simp add: setVolume_def body em)
  qed
qed

text \<open>
  C4 at a failing input. On a manager whose listener for \<open>volumeChanged\<close> throws and
  that has no listener for \<open>error\<close>, \<^verbatim>\<open>setVolume(0.5)\<close> stores the volume and then
  throws: its catch clause emits \<open>error\<close>, which nobody handles.
\<close>

theorem setVolume_throws:
  "listeners throwingVolumeListener EvError = [] \<and>
   fst (setVolume (Fin (1 / 2)) throwingVolumeListener)
     = Some (Error ''Failed to set volume: boom'') \<and>
   volume (snd (setVolume (Fin (1 / 2)) throwingVolumeListener)) = Fin (1 / 2)"
  by code_simp


section \<open>Track statistics\<close>

lemma setupAudioCaptureIfEnabled_sameConfig [simp]:
  "sameConfig s (snd (setupAudioCaptureIfEnabled t p s))"
  by (simp add: setupAudioCaptureIfEnabled_def Let_def split: option.split)

lemma attachAudioElementToDOM_trackStats [simp]:
  "trackStats (attachAudioElementToDOM h s) = trackStats s"
  by (simp add: attachAudioElementToDOM_def)

lemma emit_trackStats [simp]: "trackStats (snd (emit ev s)) = trackStats s"
  using emit_sameConfig [of s ev] by (simp add: sameConfig_def)

lemma setupAudioCaptureIfEnabled_trackStats [simp]:
  "trackStats (snd (setupAudioCaptureIfEnabled t p s)) = trackStats s"
  using setupAudioCaptureIfEnabled_sameConfig [of s t p] by (simp add: sameConfig_def)

lemma setupAudioElement_trackStats [simp]:
  "trackStats (snd (setupAudioElement t pub p s)) = trackStats s"
  by (simp add: setupAudioElement_def emitTrackSubscribed_def Let_def split_beta
      split: option.split sum.split prod.split)

lemma handleTrackSubscribed_trackStats:
  "tr_kind t = Audio \<Longrightarrow>
   trackStats (snd (handleTrackSubscribed t pub p now s))
     = trackStats (recordTrackStats t pub p now s)"
  by (simp add: handleTrackSubscribed_def split_beta split: option.split prod.split)

lemma detachTrackElements_trackStats [simp]:
  "trackStats (detachTrackElements els s) = trackStats s"
  by (induction els arbitrary: s) simp_all

lemma handleTrackUnsubscribed_trackStats:
  "tr_kind t = Audio \<Longrightarrow>
   trackStats (snd (handleTrackUnsubscribed t pub p s))
     = AList.delete (trackKey t) (trackStats s)"
  by (simp add: handleTrackUnsubscribed_def cleanupTrackMetadata_def Let_def
      split: option.split)

text \<open>
  C8. From an empty registry, after the subscription of two audio tracks with distinct
  keys and the unsubscription of the first, \<^verbatim>\<open>getTrackStats\<close> reports one total and
  one active track, and its track details hold exactly the record of the second track.
\<close>

theorem getTrackStats_after_unsubscribe:
  assumes "tr_kind t1 = Audio" and "tr_kind t2 = Audio"
    and "trackKey t1 \<noteq> trackKey t2" and "trackStats s = []"
    and "s3 = snd (handleTrackUnsubscribed t1 pub1 p1
                (snd (handleTrackSubscribed t2 pub2 p2 now2
                   (snd (handleTrackSubscribed t1 pub1 p1 now1 s)))))"
  shows "totalTracks (getTrackStats s3) = 1 \<and> activeTracks (getTrackStats s3) = 1 \<and>
         trackDetails (getTrackStats s3) =
           [(trackKey t2,
             \<lparr> ts_trackId = trackKey t2, ts_kind = Audio,
               ts_participant = (if identity p2 = [] then ''unknown'' else identity p2),
               ts_subscriptionTime = now2, ts_publication = pub2,
               ts_source = getTrackSourceString (pub_source pub2),
               ts_muted = pub_isMuted pub2, ts_enabled = pub_isEnabled pub2,
               ts_dimensions = pub_dimensions pub2,
               ts_simulcasted = pub_simulcasted pub2 \<rparr>)]"
  using assms
  by (simp add: getTrackStats_def handleTrackUnsubscribed_trackStats
      handleTrackSubscribed_trackStats recordTrackStats_def orUnknown_def)

text \<open>The agent's track, then the user's, then the agent's track unsubscribed.\<close>

theorem getTrackStats_after_unsubscribe_witness:
  "tr_kind agentTrack = Audio \<and> tr_kind userTrack = Audio \<and>
   trackKey agentTrack \<noteq> trackKey userTrack \<and> trackStats (newManager browser) = [] \<and>
   totalTracks (getTrackStats
       (snd (handleTrackUnsubscribed agentTrack micPublication agentParticipant
          (snd (handleTrackSubscribed userTrack micPublication userParticipant 20
             (snd (handleTrackSubscribed agentTrack micPublication agentParticipant 10
                (newManager browser)))))))) = 1 \<and>
   trackDetails (getTrackStats
       (snd (handleTrackUnsubscribed agentTrack micPublication agentParticipant
          (snd (handleTrackSubscribed userTrack micPublication userParticipant 20
             (snd (handleTrackSubscribed agentTrack micPublication agentParticipant 10
                (newManager browser)))))))) = [(''TR_user'', userRecord)]"
proof -
  have h: "tr_kind agentTrack = Audio" "tr_kind userTrack = Audio"
    "trackKey agentTrack \<noteq> trackKey userTrack" "trackStats (newManager browser) = []"
    by (simp_all add: agentTrack_def userTrack_def trackKey_def newManager_def)
  show ?thesis
    using h getTrackStats_after_unsubscribe [OF h refl, where ?pub1.0 = micPublication
        and ?p1.0 = agentParticipant and ?pub2.0 = micPublication
        and ?p2.0 = userParticipant and ?now1.0 = 10 and ?now2.0 = 20]
    by (simp add: userTrack_def trackKey_def userRecord_def userParticipant_def
        micPublication_def)
qed

section \<open>Capture sessions\<close>

lemma sameCapture_refl [simp]: "sameCapture s s"
  by (simp add: sameCapture_def)

lemma sameCapture_trans: "sameCapture s s' \<Longrightarrow> sameCapture s' s'' \<Longrightarrow> sameCapture s s''"
  by (simp add: sameCapture_def)

lemma emit_sameCapture [simp]: "sameCapture s (snd (emit ev s))"
  by (simp add: emit_def sameCapture_def Let_def split: list.split event.split)

lemma attachAudioElementToDOM_sameCapture [simp]:
  "sameCapture s (attachAudioElementToDOM h s)"
  by (simp add: attachAudioElementToDOM_def sameCapture_def)

lemma recordTrackStats_sameCapture [simp]: "sameCapture s (recordTrackStats t pub p now s)"
  by (simp add: recordTrackStats_def sameCapture_def)

lemma audioElements_update_sameCapture [simp]: "sameCapture s (s\<lparr>audioElements := es\<rparr>)"
  by (simp add: sameCapture_def)

lemma setupAudioElement_sameCapture:
  assumes skip: "\<And>x. sameCapture s x \<Longrightarrow> setupAudioCaptureIfEnabled t p x = (None, x)"
  shows "sameCapture s (snd (setupAudioElement t pub p s))"
proof (cases "tr_attach t")
  case None
  then show ?thesis by (simp add: setupAudioElement_def)
next
  case (Some audioElement)
  show ?thesis
  proof (cases "setElementVolume (volume s) audioElement")
    case (Inl x)
    then show ?thesis by (simp add: setupAudioElement_def Some)
  next
    case (Inr e1)
    let ?e2 = "setupAudioMonitoring (e1\<lparr>el_autoplay := True\<rparr>)"
    let ?s1 = "s\<lparr>audioElements := setAdd ?e2 (audioElements s)\<rparr>"
    obtain r s2 where em: "emitTrackSubscribed t pub p ?s1 = (r, s2)"
      by (cases "emitTrackSubscribed t pub p ?s1")
    have "sameCapture ?s1 (snd (emitTrackSubscribed t pub p ?s1))"
      by (simp add: emitTrackSubscribed_def)
    then have "sameCapture ?s1 s2"
      by (simp add: em)
    then have s2: "sameCapture s s2"
      by (rule sameCapture_trans [OF audioElements_update_sameCapture])
    have s3: "sameCapture s (attachAudioElementToDOM (el_handle ?e2) s2)"
      by (rule sameCapture_trans [OF s2 attachAudioElementToDOM_sameCapture])
    show ?thesis
      using s2 s3 skip [OF s3]
      by (cases r) (simp_all add: setupAudioElement_def Some Inr em Let_def)
  qed
qed

lemma handleTrackSubscribed_sameCapture:
  assumes skip: "\<And>x. sameCapture s x \<Longrightarrow> setupAudioCaptureIfEnabled t p x = (None, x)"
  shows "sameCapture s (snd (handleTrackSubscribed t pub p now s))"
proof (cases "tr_kind t = Audio")
  case False
  then show ?thesis by (simp add: handleTrackSubscribed_def)
next
  case True
  let ?s0 = "recordTrackStats t pub p now s"
  have s0: "sameCapture s ?s0" by simp
  have skip0: "\<And>x. sameCapture ?s0 x \<Longrightarrow> setupAudioCaptureIfEnabled t p x = (None, x)"
    by (rule skip) (rule sameCapture_trans [OF s0])
  obtain r s1 where el: "setupAudioElement t pub p ?s0 = (r, s1)"
    by (cases "setupAudioElement t pub p ?s0")
  have "sameCapture ?s0 s1"
    using setupAudioElement_sameCapture [of ?s0 t p pub, OF skip0] el by simp
  then have s1: "sameCapture s s1" by (rule sameCapture_trans [OF s0])
  show ?thesis
    using s1 skip [OF s1] by (cases r) (simp_all add: handleTrackSubscribed_def True el)
qed

lemma handleLocalTrackPublished_sameCapture:
  assumes skip: "\<And>x. sameCapture s x \<Longrightarrow> setupAudioCaptureIfEnabled t p x = (None, x)"
  shows "sameCapture s (snd (handleLocalTrackPublished t pub p now s))"
  using skip [of "recordTrackStats t pub p now s"]
  by (simp add: handleLocalTrackPublished_def)

lemma setupAudioCaptureIfEnabled_captured:
  "mapHas (trackCaptureMap s) (trackKey t) \<Longrightarrow> setupAudioCaptureIfEnabled t p s = (None, s)"
  by (simp add: setupAudioCaptureIfEnabled_def Let_def setupTrackCapture_captured
      split: option.split)

lemma filter_key_absent:
  "\<not> mapHas m k \<Longrightarrow> filter (\<lambda>e. fst e = k) m = []"
  by (induction m) (auto simp: mapHas_def)

lemma update_absent: "\<not> mapHas m k \<Longrightarrow> AList.update k v m = m @ [(k, v)]"
  by (induction m) (auto simp: mapHas_def)

lemma mapHas_update [simp]: "mapHas (AList.update k v m) k"
  by (simp add: mapHas_def update_conv')

lemma setupTrackCapture_first:
  assumes "audioCaptureOptions s \<noteq> None" and "getTrackById trackId s = Some t"
    and "tr_mediaStreamTrack t = Some mediaTrack" and "\<not> mapHas (trackCaptureMap s) trackId"
  shows "sameSessions
           (s\<lparr>trackCaptureMap := AList.update trackId
                 \<lparr>cap_participant = participant, cap_source = source\<rparr> (trackCaptureMap s),
              clonedTracks := AList.update trackId
                 \<lparr>mst_id = cloneId (platform s) (mst_id mediaTrack)\<rparr> (clonedTracks s),
              effects := effects s @ [TrackCloned trackId]\<rparr>)
           (snd (setupTrackCapture trackId participant source format s))"
proof -
  let ?s2 = "s\<lparr>trackCaptureMap := AList.update trackId
                 \<lparr>cap_participant = participant, cap_source = source\<rparr> (trackCaptureMap s),
              clonedTracks := AList.update trackId
                 \<lparr>mst_id = cloneId (platform s) (mst_id mediaTrack)\<rparr> (clonedTracks s),
              effects := effects s @ [TrackCloned trackId]\<rparr>"
  have "setupTrackCapture trackId participant source format s =
          (if format = OpusWebm
           then setupEncodedCapture trackId participant source
                  (getTrackSourceString (tr_source t)) ?s2
           else setupPCMCapture trackId participant source format
                  (getTrackSourceString (tr_source t)) ?s2)"
    using assms by (auto simp: setupTrackCapture_def Let_def)
  then show ?thesis by simp
qed

text \<open>
  C1. With capture armed, for a stream that the room resolves and that has no capture
  session and no clone yet, the first per-stream set-up leaves exactly one capture
  session and exactly one cloned stream for the stream's id, and has cloned the stream
  once. A second set-up for that id, with whatever arguments, returns at the existence
  check and leaves the manager as it is: no recorder, processing node or clone is made.
  So does the set-up that a subscription event for the stream triggers, and after the
  whole event the capture sessions, clones, recorders, processors, source nodes and
  pending worklet set-ups are those of before, with no further clone made.
\<close>

theorem capture_dedupe:
  assumes armed: "audioCaptureOptions s \<noteq> None"
    and resolvable: "getTrackById trackId s = Some t" "tr_mediaStreamTrack t = Some mediaTrack"
    and fresh: "\<not> mapHas (trackCaptureMap s) trackId" "\<not> mapHas (clonedTracks s) trackId"
    and first: "s1 = snd (setupTrackCapture trackId participant source format s)"
    and again: "trackKey t' = trackId"
    and second: "s2 = snd (handleTrackSubscribed t' pub' p' now s1)"
  shows "length (filter (\<lambda>e. fst e = trackId) (trackCaptureMap s1)) = 1 \<and>
         length (filter (\<lambda>e. fst e = trackId) (clonedTracks s1)) = 1 \<and>
         count_list (effects s1) (TrackCloned trackId)
           = count_list (effects s) (TrackCloned trackId) + 1 \<and>
         setupTrackCapture trackId participant' source' format' s1 = (None, s1) \<and>
         setupAudioCaptureIfEnabled t' p' s1 = (None, s1) \<and>
         trackCaptureMap s2 = trackCaptureMap s1 \<and> clonedTracks s2 = clonedTracks s1 \<and>
         recorders s2 = recorders s1 \<and> processors s2 = processors s1 \<and>
         sourceNodes s2 = sourceNodes s1 \<and> pendingWorklet s2 = pendingWorklet s1 \<and>
         count_list (effects s2) (TrackCloned trackId)
           = count_list (effects s1) (TrackCloned trackId)"
proof -
  have same: "sameSessions
           (s\<lparr>trackCaptureMap := AList.update trackId
                 \<lparr>cap_participant = participant, cap_source = source\<rparr> (trackCaptureMap s),
              clonedTracks := AList.update trackId
                 \<lparr>mst_id = cloneId (platform s) (mst_id mediaTrack)\<rparr> (clonedTracks s),
              effects := effects s @ [TrackCloned trackId]\<rparr>) s1"
    unfolding first by (rule setupTrackCapture_first [OF armed resolvable fresh(1)])
  have tcm: "trackCaptureMap s1 = trackCaptureMap s @
               [(trackId, \<lparr>cap_participant = participant, cap_source = source\<rparr>)]"
    using same by (simp add: sameSessions_def update_absent [OF fresh(1)])
  have cl: "clonedTracks s1 = clonedTracks s @
               [(trackId, \<lparr>mst_id = cloneId (platform s) (mst_id mediaTrack)\<rparr>)]"
    using same by (simp add: sameSessions_def update_absent [OF fresh(2)])
  have cnt: "count_list (effects s1) (TrackCloned trackId)
               = count_list (effects s) (TrackCloned trackId) + 1"
    using same by (simp add: sameSessions_def)
  have has: "mapHas (trackCaptureMap s1) trackId"
    by (simp add: tcm mapHas_def)
  have skip: "setupAudioCaptureIfEnabled t' p' x = (None, x)" if "sameCapture s1 x" for x
  proof -
    have "mapHas (trackCaptureMap x) (trackKey t')"
      using that has by (simp add: sameCapture_def again)
    then show ?thesis by (rule setupAudioCaptureIfEnabled_captured)
  qed
  have "sameCapture s1 s2"
    unfolding second by (rule handleTrackSubscribed_sameCapture) (rule skip)
  then show ?thesis
    using skip [of s1]
    by (simp add: sameCapture_def tcm cl cnt filter_key_absent [OF fresh(1)]
        filter_key_absent [OF fresh(2)] setupTrackCapture_captured [OF has])
qed

text \<open>The agent's stream in the armed manager: set up once directly, then subscribed.
  Also: the stream captured when capture is armed over the registry and then subscribed
  again, and the stream subscribed to the armed manager (one event, which triggers the
  set-up twice), are cloned once.\<close>

theorem capture_dedupe_witness:
  "audioCaptureOptions armedManager \<noteq> None \<and>
   getTrackById ''TR_agent'' armedManager = Some agentTrack \<and>
   \<not> mapHas (trackCaptureMap armedManager) ''TR_agent'' \<and>
   trackKey agentTrack = ''TR_agent'' \<and>
   map fst (trackCaptureMap
     (snd (handleTrackSubscribed agentTrack micPublication agentParticipant 5
        (snd (setupTrackCapture ''TR_agent'' ''Voice-Agent-7'' Agent OpusWebm armedManager)))))
     = [''TR_agent''] \<and>
   length (filter (\<lambda>e. fst e = ''TR_agent'') (clonedTracks
     (snd (setupTrackCapture ''TR_agent'' ''Voice-Agent-7'' Agent OpusWebm armedManager)))) = 1 \<and>
   count_list (effects
     (snd (handleTrackSubscribed agentTrack micPublication agentParticipant 5
        (snd (enableAudioCapture callbackOnly twoTracks))))) (TrackCloned ''TR_agent'') = 1 \<and>
   count_list (effects
     (snd (handleTrackSubscribed agentTrack micPublication agentParticipant 5 armedManager)))
     (TrackCloned ''TR_agent'') = 1"
proof -
  have h: "audioCaptureOptions armedManager \<noteq> None"
    "getTrackById ''TR_agent'' armedManager = Some agentTrack"
    "tr_mediaStreamTrack agentTrack = Some \<lparr>mst_id = ''mst-agent''\<rparr>"
    "\<not> mapHas (trackCaptureMap armedManager) ''TR_agent''"
    "\<not> mapHas (clonedTracks armedManager) ''TR_agent''"
    by code_simp+
  have k: "trackKey agentTrack = ''TR_agent''"
    by code_simp
  have m: "map fst (trackCaptureMap
      (snd (setupTrackCapture ''TR_agent'' ''Voice-Agent-7'' Agent OpusWebm armedManager)))
      = [''TR_agent'']"
    by code_simp
  have events: "count_list (effects
     (snd (handleTrackSubscribed agentTrack micPublication agentParticipant 5
        (snd (enableAudioCapture callbackOnly twoTracks))))) (TrackCloned ''TR_agent'') = 1"
    "count_list (effects
     (snd (handleTrackSubscribed agentTrack micPublication agentParticipant 5 armedManager)))
     (TrackCloned ''TR_agent'') = 1"
    by code_simp+
  show ?thesis
    using h k m events capture_dedupe [OF h refl k refl, where participant = "''Voice-Agent-7''"
        and source = Agent and format = OpusWebm and pub' = micPublication
        and p' = agentParticipant and now = 5]
    by simp
qed

section \<open>Capture filter\<close>

lemma mapHas_iff: "mapHas m k \<longleftrightarrow> k \<in> fst ` set m"
  by (simp add: mapHas_def map_of_eq_None_iff)

lemma setupTrackCapture_map_cases:
  "trackCaptureMap (snd (setupTrackCapture i p src fmt s)) = trackCaptureMap s \<or>
   trackCaptureMap (snd (setupTrackCapture i p src fmt s))
     = AList.update i \<lparr>cap_participant = p, cap_source = src\<rparr> (trackCaptureMap s)"
proof -
  have upd: "sameSessions (s\<lparr>trackCaptureMap := m, clonedTracks := c, effects := e\<rparr>) s'
      \<Longrightarrow> trackCaptureMap s' = m" for m c e s'
    by (simp add: sameSessions_def)
  have a: "trackCaptureMap (snd (setupEncodedCapture i p src tsrc
             (s\<lparr>trackCaptureMap := m, clonedTracks := c, effects := e\<rparr>))) = m" for m c e tsrc
    by (rule upd) (rule setupEncodedCapture_sameSessions)
  have b: "trackCaptureMap (snd (setupPCMCapture i p src fmt tsrc
             (s\<lparr>trackCaptureMap := m, clonedTracks := c, effects := e\<rparr>))) = m" for m c e tsrc
    by (rule upd) (rule setupPCMCapture_sameSessions)
  show ?thesis
    by (simp add: setupTrackCapture_def Let_def a b split: option.split)
qed

lemma setupTrackCapture_keys:
  "fst ` set (trackCaptureMap (snd (setupTrackCapture i p src fmt s)))
     \<subseteq> insert i (fst ` set (trackCaptureMap s))"
  using setupTrackCapture_map_cases [of i p src fmt s]
  by (elim disjE) (auto simp: dom_update)

lemma setupTrackCapture_keys_mono:
  "fst ` set (trackCaptureMap s)
     \<subseteq> fst ` set (trackCaptureMap (snd (setupTrackCapture i p src fmt s)))"
  using setupTrackCapture_map_cases [of i p src fmt s]
  by (elim disjE) (auto simp: dom_update)

lemma captureExisting_Cons_cases:
  assumes "setupTrackCapture i (ts_participant d) (roleOf (ts_participant d)) fmt s = (r, s')"
  shows "snd (captureExisting src fmt flt ((i, d) # rest) s)
           = snd (captureExisting src fmt flt rest s) \<or>
         (src = Some Both \<or> src = Some (roleOf (ts_participant d))) \<and>
         (snd (captureExisting src fmt flt ((i, d) # rest) s) = s' \<or>
          snd (captureExisting src fmt flt ((i, d) # rest) s)
            = snd (captureExisting src fmt flt rest s'))"
  using assms by (cases r) (auto simp: Let_def)

lemma captureExisting_keys:
  "fst ` set (trackCaptureMap (snd (captureExisting (Some Agent) fmt flt entries s)))
     \<subseteq> fst ` set (trackCaptureMap s)
         \<union> {i. \<exists>d. (i, d) \<in> set entries \<and> roleOf (ts_participant d) = Agent}"
proof (induction entries arbitrary: s)
  case Nil
  show ?case by simp
next
  case (Cons entry rest)
  obtain i d where entry: "entry = (i, d)" by (cases entry)
  obtain r s' where run:
    "setupTrackCapture i (ts_participant d) (roleOf (ts_participant d)) fmt s = (r, s')"
    by (cases "setupTrackCapture i (ts_participant d) (roleOf (ts_participant d)) fmt s")
  define A where "A = {i. \<exists>d. (i, d) \<in> set rest \<and> roleOf (ts_participant d) = Agent}"
  define B where
    "B = {i. \<exists>d. (i, d) \<in> set (entry # rest) \<and> roleOf (ts_participant d) = Agent}"
  define K where "K = fst ` set (trackCaptureMap s)"
  define K' where "K' = fst ` set (trackCaptureMap s')"
  have keys: "K' \<subseteq> insert i K"
    using setupTrackCapture_keys [of i "ts_participant d" "roleOf (ts_participant d)" fmt s]
    by (simp add: run K_def K'_def)
  have rest: "A \<subseteq> B"
    unfolding A_def B_def by auto
  have mem: "roleOf (ts_participant d) = Agent \<Longrightarrow> i \<in> B"
    unfolding B_def entry by auto
  have ih: "fst ` set (trackCaptureMap (snd (captureExisting (Some Agent) fmt flt rest s)))
              \<subseteq> K \<union> A"
    and ih': "fst ` set (trackCaptureMap (snd (captureExisting (Some Agent) fmt flt rest s')))
              \<subseteq> K' \<union> A"
    unfolding K_def K'_def A_def by (rule Cons.IH)+
  from captureExisting_Cons_cases [OF run, of "Some Agent" flt rest]
  consider
    (skip) "snd (captureExisting (Some Agent) fmt flt (entry # rest) s)
              = snd (captureExisting (Some Agent) fmt flt rest s)"
    | (stop) "roleOf (ts_participant d) = Agent"
        "snd (captureExisting (Some Agent) fmt flt (entry # rest) s) = s'"
    | (continue) "roleOf (ts_participant d) = Agent"
        "snd (captureExisting (Some Agent) fmt flt (entry # rest) s)
           = snd (captureExisting (Some Agent) fmt flt rest s')"
    unfolding entry by auto
  then have "fst ` set (trackCaptureMap
               (snd (captureExisting (Some Agent) fmt flt (entry # rest) s))) \<subseteq> K \<union> B"
  proof cases
    case skip
    show ?thesis unfolding skip using ih rest by blast
  next
    case stop
    show ?thesis unfolding stop(2) using keys mem [OF stop(1)] by (fold K'_def) blast
  next
    case continue
    show ?thesis unfolding continue(2) using ih' keys rest mem [OF continue(1)] by blast
  qed
  then show ?case
    by (simp only: K_def B_def)
qed

lemma captureExisting_keys_mono:
  "fst ` set (trackCaptureMap s)
     \<subseteq> fst ` set (trackCaptureMap (snd (captureExisting src fmt flt entries s)))"
proof (induction entries arbitrary: s)
  case Nil
  show ?case by simp
next
  case (Cons entry rest)
  obtain i d where entry: "entry = (i, d)" by (cases entry)
  obtain r s' where run:
    "setupTrackCapture i (ts_participant d) (roleOf (ts_participant d)) fmt s = (r, s')"
    by (cases "setupTrackCapture i (ts_participant d) (roleOf (ts_participant d)) fmt s")
  have keys: "fst ` set (trackCaptureMap s) \<subseteq> fst ` set (trackCaptureMap s')"
    using setupTrackCapture_keys_mono [of s i "ts_participant d" "roleOf (ts_participant d)" fmt]
    by (simp add: run)
  from captureExisting_Cons_cases [OF run, of src flt rest]
  consider
    (skip) "snd (captureExisting src fmt flt (entry # rest) s)
              = snd (captureExisting src fmt flt rest s)"
    | (stop) "snd (captureExisting src fmt flt (entry # rest) s) = s'"
    | (continue) "snd (captureExisting src fmt flt (entry # rest) s)
           = snd (captureExisting src fmt flt rest s')"
    unfolding entry by auto
  then show ?case
  proof cases
    case skip
    then show ?thesis using Cons.IH [of s] by simp
  next
    case stop
    then show ?thesis using keys by simp
  next
    case continue
    then show ?thesis using order_trans [OF keys Cons.IH [of s']] by simp
  qed
qed

lemma captureExisting_skips_user:
  assumes "distinct (map fst entries)" and "(i, d) \<in> set entries"
    and "roleOf (ts_participant d) \<noteq> Agent"
  shows "mapHas (trackCaptureMap (snd (captureExisting (Some Agent) fmt flt entries s))) i
           = mapHas (trackCaptureMap s) i"
proof -
  have "\<not> (\<exists>d'. (i, d') \<in> set entries \<and> roleOf (ts_participant d') = Agent)"
  proof
    assume "\<exists>d'. (i, d') \<in> set entries \<and> roleOf (ts_participant d') = Agent"
    then obtain d' where d': "(i, d') \<in> set entries" "roleOf (ts_participant d') = Agent"
      by blast
    have "d' = d"
      using assms(1,2) d'(1) by (meson eq_key_imp_eq_value)
    then show False using d'(2) assms(3) by simp
  qed
  then show ?thesis
    using captureExisting_keys [of fmt flt entries s]
      captureExisting_keys_mono [of s "Some Agent" fmt flt entries]
    by (auto simp: mapHas_iff)
qed

lemma setupAudioCaptureIfEnabled_skips_user:
  assumes "audioCaptureOptions s = Some opts" and "opt_source opts = Some Agent"
    and "roleOf (identity p) \<noteq> Agent"
  shows "setupAudioCaptureIfEnabled t p s = (None, s)"
  using assms by (simp add: setupAudioCaptureIfEnabled_def Let_def)

text \<open>
  C7. When the capture source is \<open>agent\<close>, a participant whose identity does not contain
  \<open>agent\<close> (in any case) gets no capture session. If capture is armed with that source,
  the subscription of a remote track and the publication of a local track of such a
  participant leave the capture sessions, clones, recorders, processors, source nodes and
  pending worklet set-ups as they are. And when capture is armed with that source (given
  or by default) over a registry with distinct keys, a registered track of such a
  participant has a capture session afterwards only if it had one before.
\<close>

theorem capture_filter_agent_only:
  assumes armed: "audioCaptureOptions s = Some opts" "opt_source opts = Some Agent"
    and user: "\<not> js_includes (toLowerCase (identity p)) ''agent''"
    and subscribed: "s' = snd (handleTrackSubscribed t pub p now s)"
    and published: "s'' = snd (handleLocalTrackPublished t pub p now s)"
    and arming: "opt_source options = None \<or> opt_source options = Some Agent"
    and registry: "distinct (map fst (trackStats s0))" "(i, d) \<in> set (trackStats s0)"
    and registered_user: "\<not> js_includes (toLowerCase (ts_participant d)) ''agent''"
  shows "trackCaptureMap s' = trackCaptureMap s \<and> clonedTracks s' = clonedTracks s \<and>
         recorders s' = recorders s \<and> processors s' = processors s \<and>
         sourceNodes s' = sourceNodes s \<and> pendingWorklet s' = pendingWorklet s \<and>
         trackCaptureMap s'' = trackCaptureMap s \<and> clonedTracks s'' = clonedTracks s \<and>
         recorders s'' = recorders s \<and> processors s'' = processors s \<and>
         sourceNodes s'' = sourceNodes s \<and> pendingWorklet s'' = pendingWorklet s \<and>
         mapHas (trackCaptureMap (snd (enableAudioCapture options s0))) i
           = mapHas (trackCaptureMap s0) i"
proof -
  have role: "roleOf (identity p) \<noteq> Agent"
    using user by (simp add: roleOf_def)
  have skip: "setupAudioCaptureIfEnabled t p x = (None, x)" if "sameCapture s x" for x
    using that armed role
    by (intro setupAudioCaptureIfEnabled_skips_user [of x opts]) (simp_all add: sameCapture_def)
  have sub: "sameCapture s s'"
    unfolding subscribed by (rule handleTrackSubscribed_sameCapture) (rule skip)
  have pub: "sameCapture s s''"
    unfolding published by (rule handleLocalTrackPublished_sameCapture) (rule skip)
  have batch: "mapHas (trackCaptureMap (snd (enableAudioCapture options s0))) i
                 = mapHas (trackCaptureMap s0) i"
  proof (cases "case opt_callback options of Some c \<Rightarrow> Some c | None \<Rightarrow> opt_onData options")
    case None
    then show ?thesis by (simp add: enableAudioCapture_def)
  next
    case (Some callback)
    have role_d: "roleOf (ts_participant d) \<noteq> Agent"
      using registered_user by (simp add: roleOf_def)
    have src: "opt_source (normalizeOptions options callback) = Some Agent"
      using arming by (auto simp: normalizeOptions_def)
    have fmt: "opt_format (normalizeOptions options callback) \<noteq> None"
      by (simp add: normalizeOptions_def)
    then obtain f where f: "opt_format (normalizeOptions options callback) = Some f"
      by blast
    show ?thesis
      using captureExisting_skips_user [OF registry role_d, of f
          "opt_trackSourceFilter (normalizeOptions options callback)"
          "s0\<lparr>audioCaptureEnabled := True,
              audioCaptureOptions := Some (normalizeOptions options callback)\<rparr>"]
      by (simp add: enableAudioCapture_def Some setupExistingTrackCapture_def src f)
  qed
  show ?thesis
    using sub pub batch by (simp add: sameCapture_def)
qed

text \<open>The user \<open>alice\<close>: subscribed to the armed manager, and registered in
  \<open>twoTracks\<close> when capture is armed; the agent's track is captured in both.\<close>

theorem capture_filter_agent_only_witness:
  "\<not> js_includes (toLowerCase (identity userParticipant)) ''agent'' \<and>
   trackCaptureMap
     (snd (handleTrackSubscribed userTrack micPublication userParticipant 20 armedManager))
     = trackCaptureMap armedManager \<and>
   map fst (trackCaptureMap
     (snd (handleTrackSubscribed agentTrack micPublication agentParticipant 10 armedManager)))
     = [''TR_agent''] \<and>
   trackStats twoTracks = [(''TR_agent'', the (map_of (trackStats twoTracks) ''TR_agent'')),
                           (''TR_user'', userRecord)] \<and>
   \<not> mapHas (trackCaptureMap (snd (enableAudioCapture callbackOnly twoTracks))) ''TR_user'' \<and>
   mapHas (trackCaptureMap (snd (enableAudioCapture callbackOnly twoTracks))) ''TR_agent''"
proof -
  have armed: "audioCaptureOptions armedManager = Some (normalizeOptions callbackOnly (Callback 0))"
    "opt_source (normalizeOptions callbackOnly (Callback 0)) = Some Agent"
    by code_simp+
  have user: "\<not> js_includes (toLowerCase (identity userParticipant)) ''agent''"
    by code_simp
  have arming: "opt_source callbackOnly = None \<or> opt_source callbackOnly = Some Agent"
    by (simp add: callbackOnly_def)
  have registry: "distinct (map fst (trackStats twoTracks))"
    "(''TR_user'', userRecord) \<in> set (trackStats twoTracks)"
    "trackStats twoTracks = [(''TR_agent'', the (map_of (trackStats twoTracks) ''TR_agent'')),
                             (''TR_user'', userRecord)]"
    by code_simp+
  have registered_user: "\<not> js_includes (toLowerCase (ts_participant userRecord)) ''agent''"
    by code_simp
  have before: "\<not> mapHas (trackCaptureMap twoTracks) ''TR_user''"
    by code_simp
  have agent: "map fst (trackCaptureMap
       (snd (handleTrackSubscribed agentTrack micPublication agentParticipant 10 armedManager)))
       = [''TR_agent'']"
    "mapHas (trackCaptureMap (snd (enableAudioCapture callbackOnly twoTracks))) ''TR_agent''"
    by code_simp+
  show ?thesis
    using capture_filter_agent_only [OF armed user refl refl arming registry(1,2)
        registered_user, where t = userTrack and pub = micPublication and now = 20]
      user registry(3) before agent
    by simp
qed


section \<open>Activity detection\<close>

text \<open>The three listeners of one set: what each does to the closure variable and what
  it emits.\<close>

lemma listeners_of_one_set:
  "fst (onPlay False s) = True \<and>
   emitted (snd (snd (onPlay False s))) = emitted s @ [Speaking] \<and>
   onPlay True s = (True, None, s) \<and>
   fst (onPause b s) = False \<and>
   emitted (snd (snd (onPause b s))) = emitted s @ [Listening] \<and>
   fst (onEnded b s) = False \<and>
   emitted (snd (snd (onEnded b s))) = emitted s @ [Listening]"
  by (simp add: onPlay_def onPause_def onEnded_def split_beta)

lemma emit_audioElements [simp]: "audioElements (snd (emit ev s)) = audioElements s"
  by (simp add: emit_def Let_def split: list.split event.split)

lemma dispatch_audioElements [simp]:
  "audioElements (snd (snd (dispatch ev b s))) = audioElements s"
  by (cases ev) (simp_all add: onPlay_def onPause_def onEnded_def)

lemma dispatch_flag: "fst (dispatch ev b s) = (ev = Play)"
  by (cases ev) (simp_all add: onPlay_def onPause_def onEnded_def)

lemma dispatch_emitted:
  "emitted (snd (snd (dispatch ev b s))) = emitted s @ spec_activity b [ev]"
  by (cases ev) (simp_all add: onPlay_def onPause_def onEnded_def)

lemma find_map_monitors:
  "find (\<lambda>e. el_handle e = h)
     (map (\<lambda>x. if el_handle x = h then x\<lparr>el_monitors := bs\<rparr> else x) es)
   = map_option (\<lambda>x. x\<lparr>el_monitors := bs\<rparr>) (find (\<lambda>e. el_handle e = h) es)"
  by (induction es) auto

text \<open>A media event on an element of the set that has one set of listeners.\<close>

lemma mediaEvent_once:
  assumes "monitorsOf h s = Some [b]"
  shows "emitted (mediaEvent ev h s) = emitted s @ spec_activity b [ev]"
    and "monitorsOf h (mediaEvent ev h s) = Some [ev = Play]"
proof -
  obtain e where e: "find (\<lambda>x. el_handle x = h) (audioElements s) = Some e"
    and m: "el_monitors e = [b]"
    using assms by (auto simp: monitorsOf_def)
  show "emitted (mediaEvent ev h s) = emitted s @ spec_activity b [ev]"
    using e m by (simp add: mediaEvent_def split_beta dispatch_emitted)
  show "monitorsOf h (mediaEvent ev h s) = Some [ev = Play]"
    using e m
    by (simp add: monitorsOf_def mediaEvent_def split_beta dispatch_flag find_map_monitors)
qed

lemma spec_activity_Cons:
  "spec_activity b (ev # evs) = spec_activity b [ev] @ spec_activity (ev = Play) evs"
  by (cases ev) simp_all

text \<open>
  On an element with one set of listeners the events emitted are those of the
  transition table, from the value that the closure variable has.
\<close>

lemma mediaEvents_once:
  assumes "monitorsOf h s = Some [b]"
  shows "emitted (mediaEvents evs h s) = emitted s @ spec_activity b evs"
  using assms
proof (induction evs arbitrary: s b)
  case Nil
  show ?case by simp
next
  case (Cons ev evs)
  have "emitted (mediaEvents evs h (mediaEvent ev h s))
          = emitted (mediaEvent ev h s) @ spec_activity (ev = Play) evs"
    by (rule Cons.IH [OF mediaEvent_once(2) [OF Cons.prems]])
  then show ?case
    using mediaEvent_once(1) [OF Cons.prems, of ev] spec_activity_Cons [of b ev evs] by simp
qed

text \<open>
  A subscription adds one set of listeners, with a variable that is false, to those
  that the element returned by \<^verbatim>\<open>attach()\<close> has already (the volume of a manager
  is in \<open>[0, 1]\<close>, so that the volume setter of the element returns).
\<close>

lemma find_append_absent:
  "find P xs = None \<Longrightarrow> find P (xs @ ys) = find P ys"
  by (induction xs) (simp_all split: if_splits)

lemma find_setAdd: "find (\<lambda>x. el_handle x = el_handle e) (setAdd e es) = Some e"
proof (cases "el_handle e \<in> el_handle ` set es")
  case True
  then show ?thesis
    by (induction es) (auto simp: setAdd_def)
next
  case False
  then have "\<forall>x\<in>set es. el_handle x \<noteq> el_handle e"
    by (metis imageI)
  then have "find (\<lambda>x. el_handle x = el_handle e) es = None"
    by (simp add: find_None_iff)
  then show ?thesis using False by (simp add: setAdd_def find_append_absent)
qed

lemma find_map_monitors_kept:
  assumes "\<And>x. el_handle (f x) = el_handle x" and "\<And>x. el_monitors (f x) = el_monitors x"
  shows "map_option el_monitors (find (\<lambda>x. el_handle x = h) (map f es))
           = map_option el_monitors (find (\<lambda>x. el_handle x = h) es)"
  using assms by (induction es) auto

lemma attachAudioElementToDOM_monitors:
  "monitorsOf h (attachAudioElementToDOM h' s) = monitorsOf h s"
  by (auto simp: monitorsOf_def attachAudioElementToDOM_def intro!: find_map_monitors_kept)

lemma setupAudioCaptureIfEnabled_monitors:
  "monitorsOf h (snd (setupAudioCaptureIfEnabled t p s)) = monitorsOf h s"
  using setupAudioCaptureIfEnabled_sameConfig [of s t p]
  by (simp add: monitorsOf_def sameConfig_def)

lemma setupAudioElement_monitors:
  assumes "tr_attach t = Some e" and "volume s = Fin r" and "0 \<le> r" and "r \<le> 1"
  shows "monitorsOf (el_handle e) (snd (setupAudioElement t pub p s))
           = Some (el_monitors e @ [False])"
proof -
  define e2 where "e2 = setupAudioMonitoring (e\<lparr>el_volume := Fin r, el_autoplay := True\<rparr>)"
  define s1 where "s1 = s\<lparr>audioElements := setAdd e2 (audioElements s)\<rparr>"
  have h: "el_handle e2 = el_handle e" and m: "el_monitors e2 = el_monitors e @ [False]"
    by (simp_all add: e2_def setupAudioMonitoring_def)
  have "find (\<lambda>x. el_handle x = el_handle e2) (setAdd e2 (audioElements s)) = Some e2"
    by (rule find_setAdd)
  then have s1m: "monitorsOf (el_handle e) s1 = Some (el_monitors e @ [False])"
    by (simp add: monitorsOf_def s1_def h m)
  have em: "monitorsOf (el_handle e) (snd (emitTrackSubscribed t pub p s1))
              = Some (el_monitors e @ [False])"
    using s1m by (simp add: monitorsOf_def emitTrackSubscribed_def)
  have unfold: "setupAudioElement t pub p s =
      (case emitTrackSubscribed t pub p s1 of
         (Some x, s2) \<Rightarrow> (Some x, s2)
       | (None, s2) \<Rightarrow>
           setupAudioCaptureIfEnabled t p (attachAudioElementToDOM (el_handle e2) s2))"
    unfolding e2_def s1_def
    using assms by (simp add: setupAudioElement_def setElementVolume_def Let_def)
  show ?thesis
  proof (cases "emitTrackSubscribed t pub p s1")
    case (Pair r' s2)
    then have s2: "monitorsOf (el_handle e) s2 = Some (el_monitors e @ [False])"
      using em by simp
    show ?thesis
      using s2 by (cases r')
        (simp_all add: unfold Pair setupAudioCaptureIfEnabled_monitors
          attachAudioElementToDOM_monitors)
  qed
qed

lemma handleTrackSubscribed_monitors:
  assumes "tr_kind t = Audio" and "tr_attach t = Some e"
    and "volume s = Fin r" and "0 \<le> r" and "r \<le> 1"
  shows "monitorsOf (el_handle e) (snd (handleTrackSubscribed t pub p now s))
           = Some (el_monitors e @ [False])"
proof -
  have v: "volume (recordTrackStats t pub p now s) = Fin r"
    using assms(3) by (simp add: recordTrackStats_def)
  have "monitorsOf (el_handle e) (snd (setupAudioElement t pub p (recordTrackStats t pub p now s)))
          = Some (el_monitors e @ [False])"
    by (rule setupAudioElement_monitors [OF assms(2) v assms(4,5)])
  then show ?thesis
    using assms(1)
    by (cases "setupAudioElement t pub p (recordTrackStats t pub p now s)")
      (auto simp: handleTrackSubscribed_def setupAudioCaptureIfEnabled_monitors
        split: option.split)
qed

text \<open>
  So the transition table holds of the sink of a subscription whose \<^verbatim>\<open>attach()\<close>
  returned an element without listeners.
\<close>

lemma activity_detection_new_element:
  assumes "tr_kind t = Audio" and "tr_attach t = Some e" and "el_monitors e = []"
    and "volume s = Fin r" and "0 \<le> r" and "r \<le> 1"
  shows "emitted (mediaEvents evs (el_handle e) (snd (handleTrackSubscribed t pub p now s)))
           = emitted (snd (handleTrackSubscribed t pub p now s)) @ spec_activity False evs"
proof -
  have "monitorsOf (el_handle e) (snd (handleTrackSubscribed t pub p now s)) = Some [False]"
    using handleTrackSubscribed_monitors [OF assms(1,2,4,5,6)] assms(3) by simp
  then show ?thesis by (rule mediaEvents_once)
qed

text \<open>
  C5 at a failing input. The agent's track is subscribed, unsubscribed and subscribed
  again, and the second \<^verbatim>\<open>attach()\<close> hands out the audio element of the first.
  \<^verbatim>\<open>#setupAudioMonitoring\<close> has then run twice on the one sink of the set, whose
  two sets of listeners each hold a variable that is false: one play event emits
  \<open>Speaking\<close> twice, where the transition table has exactly one.
\<close>

theorem activity_detection_resubscribed:
  "map el_handle (audioElements resubscribed) = [1] \<and>
   map el_monitors (audioElements resubscribed) = [[False, False]] \<and>
   emitted (mediaEvents [Play] 1 resubscribed) = emitted resubscribed @ [Speaking, Speaking] \<and>
   spec_activity False [Play] = [Speaking]"
  by code_simp


section \<open>Division in doubles\<close>

text \<open>
  What \<open>doubleDivide\<close> returns for positive operands: a significand of 53 bits at the
  binary exponent of the quotient, at most half a unit of the last place away from the
  quotient; and a number of the unit interval when the quotient is at most one.
\<close>

lemma roundTiesToEven_le: "x \<le> of_int n \<Longrightarrow> roundTiesToEven x \<le> n"
proof -
  assume le: "x \<le> of_int n"
  then have f: "\<lfloor>x\<rfloor> \<le> n" by (simp add: floor_le_iff) 
  show ?thesis
  proof (cases "\<lfloor>x\<rfloor> = n")
    case True
    then have "of_int n \<le> x" by (metis of_int_floor_le)
    with le have "x = of_int n" by simp
    then show ?thesis by (simp add: roundTiesToEven_def)
  next
    case False
    with f have "\<lfloor>x\<rfloor> + 1 \<le> n" by simp
    then show ?thesis by (simp add: roundTiesToEven_def Let_def)
  qed
qed

lemma roundTiesToEven_ge: "of_int n \<le> x \<Longrightarrow> n \<le> roundTiesToEven x"
proof -
  assume "of_int n \<le> x"
  then have "n \<le> \<lfloor>x\<rfloor>" by (simp add: le_floor_iff)
  then show ?thesis by (simp add: roundTiesToEven_def Let_def)
qed

lemma roundTiesToEven_near: "\<bar>of_int (roundTiesToEven x) - x\<bar> \<le> 1 / 2"
proof -
  have "of_int \<lfloor>x\<rfloor> \<le> x" "x < of_int \<lfloor>x\<rfloor> + 1" by linarith+
  then show ?thesis by (auto simp: roundTiesToEven_def Let_def)
qed

lemma powi2_add: "(2::real) powi x * 2 powi y = 2 powi (x + y)"
  by (simp add: power_int_add)

lemma floorlog_powi:
  assumes "0 < n"
  shows "(2::real) powi (int (floorlog 2 n) - 1) \<le> real n \<and> real n < 2 powi int (floorlog 2 n)"
proof -
  have b: "2 ^ (floorlog 2 n - 1) \<le> n" "n < 2 ^ floorlog 2 n"
    using floorlog_bounds [of n 2] assms by simp_all
  have "floorlog 2 n \<noteq> 0"
    using b(2) assms by (cases "floorlog 2 n") simp_all
  then obtain k where k: "floorlog 2 n = Suc k"
    by (cases "floorlog 2 n") simp_all
  have "real (2 ^ k) \<le> real n"
    using b(1) unfolding k by (simp only: of_nat_le_iff diff_Suc_1)
  moreover have "real n < real (2 ^ Suc k)"
    using b(2) unfolding k by (simp only: of_nat_less_iff)
  ultimately show ?thesis
    unfolding k by (simp add: power_int_add)
qed

lemma quotient_exponent:
  assumes p: "0 < p" and q: "0 < q"
    and a: "a = int (floorlog 2 p) - int (floorlog 2 q)"
    and e: "e = (if real q * 2 powi a \<le> real p then a else a - 1)"
  shows "2 powi e \<le> real p / real q \<and> real p / real q < 2 powi (e + 1)"
proof -
  have rq: "0 < real q" using q by simp
  have lower: "real q * 2 powi (a - 1) \<le> real p"
  proof -
    have "real q * 2 powi (a - 1) \<le> 2 powi int (floorlog 2 q) * 2 powi (a - 1)"
      using floorlog_powi [OF q] by (intro mult_right_mono) simp_all
    also have "\<dots> = 2 powi (int (floorlog 2 p) - 1)"
    proof -
      have "int (floorlog 2 q) + (a - 1) = int (floorlog 2 p) - 1" by (simp add: a)
      then show ?thesis by (simp only: powi2_add)
    qed
    also have "\<dots> \<le> real p" using floorlog_powi [OF p] by simp
    finally show ?thesis .
  qed
  have upper: "real p < real q * 2 powi (a + 1)"
  proof -
    have "real p < 2 powi int (floorlog 2 p)" using floorlog_powi [OF p] by simp
    also have "\<dots> = 2 powi (int (floorlog 2 q) - 1) * 2 powi (a + 1)"
    proof -
      have "int (floorlog 2 q) - 1 + (a + 1) = int (floorlog 2 p)" by (simp add: a)
      then show ?thesis by (simp only: powi2_add)
    qed
    also have "\<dots> \<le> real q * 2 powi (a + 1)"
      using floorlog_powi [OF q] by (intro mult_right_mono) simp_all
    finally show ?thesis .
  qed
  show ?thesis
  proof (cases "real q * 2 powi a \<le> real p")
    case True
    then have "e = a" by (simp add: e)
    then show ?thesis
      using True upper rq by (simp add: pos_le_divide_eq pos_divide_less_eq mult.commute)
  next
    case False
    then have "e = a - 1" by (simp add: e)
    then show ?thesis
      using False lower rq by (simp add: pos_le_divide_eq pos_divide_less_eq mult.commute)
  qed
qed

lemma doubleDivide_unit:
  assumes p: "0 < p" and pq: "p \<le> q"
  shows "0 \<le> doubleDivide p q \<and> doubleDivide p q \<le> 1"
proof -
  define a where "a = int (floorlog 2 p) - int (floorlog 2 q)"
  define e where "e = (if real q * 2 powi a \<le> real p then a else a - 1)"
  define x where "x = real p / real q * 2 powi (52 - e)"
  have q: "0 < q" using p pq by simp
  have dd: "doubleDivide p q = of_int (roundTiesToEven x) * 2 powi (e - 52)"
    by (simp add: doubleDivide_def Let_def a_def e_def x_def)
  have ex: "2 powi e \<le> real p / real q" "real p / real q < 2 powi (e + 1)"
    using quotient_exponent [OF p q a_def e_def] by simp_all
  have le1: "real p / real q \<le> 1" using pq q by simp
  have "0 \<le> x" by (simp add: x_def)
  then have "0 \<le> roundTiesToEven x"
    using roundTiesToEven_ge [of 0 x] by simp
  then have low: "0 \<le> doubleDivide p q" by (simp add: dd)
  have e0: "e \<le> 0"
  proof (rule ccontr)
    assume "\<not> e \<le> 0"
    then have "1 \<le> e" by simp
    then have "(2::real) powi 1 \<le> 2 powi e" by (intro power_int_increasing) simp_all
    with ex(1) le1 show False by simp
  qed
  have "x \<le> 2 powi (e + 1) * 2 powi (52 - e)"
    unfolding x_def using ex(2) by (intro mult_right_mono) simp_all
  also have "\<dots> = 2 powi 53"
  proof -
    have "e + 1 + (52 - e) = 53" by simp
    then show ?thesis by (simp only: powi2_add)
  qed
  finally have "x \<le> of_int (2 ^ 53)" by simp
  then have r: "roundTiesToEven x \<le> 2 ^ 53" by (rule roundTiesToEven_le)
  show ?thesis
  proof (cases "e = 0")
    case True
    then have "1 \<le> real p / real q" using ex(1) by simp
    with le1 have "real p / real q = 1" by simp
    then have "x = of_int (2 ^ 52)" by (simp add: x_def True)
    then have "roundTiesToEven x = 2 ^ 52"
      by (simp add: roundTiesToEven_def del: of_int_power of_int_numeral)
    then show ?thesis using low by (simp add: dd True)
  next
    case False
    with e0 have e1: "e + 1 \<le> 0" by simp
    have "doubleDivide p q \<le> of_int (2 ^ 53) * 2 powi (e - 52)"
      unfolding dd using r by (intro mult_right_mono) (simp_all only: of_int_le_iff, simp)
    also have "\<dots> = 2 powi 53 * 2 powi (e - 52)" by simp
    also have "\<dots> = 2 powi (e + 1)"
    proof -
      have "53 + (e - 52) = e + 1" by simp
      then show ?thesis by (simp only: powi2_add)
    qed
    also have "\<dots> \<le> 2 powi 0" using e1 by (intro power_int_increasing) simp_all
    finally show ?thesis using low by simp
  qed
qed

lemma doubleDivide_nearest:
  assumes p: "0 < p" and q: "0 < q"
  shows "\<exists>e m. doubleDivide p q = of_int m * 2 powi (e - 52) \<and> 2 ^ 52 \<le> m \<and> m \<le> 2 ^ 53 \<and>
           2 powi e \<le> real p / real q \<and> real p / real q < 2 powi (e + 1) \<and>
           \<bar>doubleDivide p q - real p / real q\<bar> \<le> 2 powi (e - 53)"
proof -
  define a where "a = int (floorlog 2 p) - int (floorlog 2 q)"
  define e where "e = (if real q * 2 powi a \<le> real p then a else a - 1)"
  define x where "x = real p / real q * 2 powi (52 - e)"
  define m where "m = roundTiesToEven x"
  have dd: "doubleDivide p q = of_int m * 2 powi (e - 52)"
    by (simp add: doubleDivide_def Let_def a_def e_def x_def m_def)
  have ex: "2 powi e \<le> real p / real q" "real p / real q < 2 powi (e + 1)"
    using quotient_exponent [OF p q a_def e_def] by simp_all
  have scaled: "x * 2 powi (e - 52) = real p / real q"
  proof -
    have "2 powi (52 - e) * 2 powi (e - 52) = (2::real) powi 0"
      by (simp only: powi2_add) simp
    then show ?thesis by (simp add: x_def)
  qed
  have "2 powi e * 2 powi (52 - e) \<le> x"
    unfolding x_def using ex(1) by (intro mult_right_mono) simp_all
  moreover have "2 powi e * 2 powi (52 - e) = (2::real) powi 52"
    by (simp only: powi2_add) simp
  ultimately have "of_int (2 ^ 52) \<le> x" by simp
  then have m1: "2 ^ 52 \<le> m" unfolding m_def by (rule roundTiesToEven_ge)
  have "x \<le> 2 powi (e + 1) * 2 powi (52 - e)"
    unfolding x_def using ex(2) by (intro mult_right_mono) simp_all
  moreover have "2 powi (e + 1) * 2 powi (52 - e) = (2::real) powi 53"
    by (simp only: powi2_add) simp
  ultimately have "x \<le> of_int (2 ^ 53)" by simp
  then have m2: "m \<le> 2 ^ 53" unfolding m_def by (rule roundTiesToEven_le)
  have "\<bar>doubleDivide p q - real p / real q\<bar> = \<bar>of_int m - x\<bar> * 2 powi (e - 52)"
    unfolding dd scaled [symmetric] by (simp add: left_diff_distrib [symmetric] abs_mult)
  also have "\<dots> \<le> 1 / 2 * 2 powi (e - 52)"
    using roundTiesToEven_near [of x] unfolding m_def by (intro mult_right_mono) simp_all
  also have "\<dots> = 2 powi (e - 53)"
  proof -
    have "(2::real) powi (- 1) * 2 powi (e - 52) = 2 powi (e - 53)"
      by (simp only: powi2_add) simp
    then show ?thesis by simp
  qed
  finally have "\<bar>doubleDivide p q - real p / real q\<bar> \<le> 2 powi (e - 53)" .
  then show ?thesis using dd m1 m2 ex by blast
qed

lemma doubleDivide_third: "doubleDivide 1 3 = 6004799503160661 / 18014398509481984"
  by code_simp


section \<open>Input level\<close>

lemma sum_bytes_le: "sum_list (map unat (bins :: 8 word list)) \<le> 255 * length bins"
proof (induction bins)
  case Nil
  show ?case by simp
next
  case (Cons b bins)
  have "unat b < 2 ^ LENGTH(8)"
    by (rule unsigned_less)
  then show ?case using Cons by simp
qed

lemma clamp_range:
  "\<exists>v. math_max MIN_VOLUME (math_min MAX_VOLUME (Fin x)) = Fin v \<and> 0 \<le> v \<and> v \<le> 1"
  by (simp add: math_max_def math_min_def MIN_VOLUME_def MAX_VOLUME_def)

lemma clamp_unit:
  "0 \<le> x \<Longrightarrow> x \<le> 1 \<Longrightarrow> math_max MIN_VOLUME (math_min MAX_VOLUME (Fin x)) = Fin x"
  by (simp add: math_max_def math_min_def MIN_VOLUME_def MAX_VOLUME_def)

lemma js_divide_unit:
  assumes "p \<le> q" and "0 < q"
  shows "\<exists>x. js_divide p q = Fin x \<and> 0 \<le> x \<and> x \<le> 1"
proof (cases "p = 0")
  case True
  then show ?thesis using assms by (simp add: js_divide_def)
next
  case False
  then show ?thesis
    using assms doubleDivide_unit [of p q] by (simp add: js_divide_def)
qed

text \<open>The state after the call: the lazily built analyser, if any.\<close>

lemma getInputVolume_state:
  "snd (getInputVolume s) = (if inputAnalyser s = None then initializeInputAnalyser s else s)"
  by (simp add: getInputVolume_def getInputVolume_try_def Let_def
      split: option.split sum.split prod.split)

text \<open>The analyser at hand and its read decide the result: nothing is thrown; without
  an analyser, with a failing read or with no bins the result is 0; otherwise it is
  the quotient of the sum of the bytes by the length times 255, as the division
  returns it, and the clamp leaves it as it is.\<close>

lemma getInputVolume_none:
  assumes "inputAnalyser (if inputAnalyser s = None then initializeInputAnalyser s else s)
             = None"
  shows "fst (getInputVolume s) = Inr (Fin 0)"
  using assms by (simp add: getInputVolume_def getInputVolume_try_def Let_def MIN_VOLUME_def)

lemma getInputVolume_read:
  assumes "inputAnalyser (if inputAnalyser s = None then initializeInputAnalyser s else s)
             = Some a"
  shows "fst (getInputVolume s) =
           (case getByteFrequencyData a (replicate (frequencyBinCount a) 0) of
              Inl x \<Rightarrow> Inr (Fin 0)
            | Inr bins \<Rightarrow>
                if bins = [] then Inr (Fin 0)
                else Inr (js_divide (sum_list (map unat bins)) (length bins * 255)))"
proof (cases "getByteFrequencyData a (replicate (frequencyBinCount a) 0)")
  case (Inl x)
  then show ?thesis
    using assms by (simp add: getInputVolume_def getInputVolume_try_def Let_def MIN_VOLUME_def)
next
  case (Inr bins)
  show ?thesis
  proof (cases "bins = []")
    case True
    then show ?thesis
      using assms Inr
      by (simp add: getInputVolume_def getInputVolume_try_def Let_def MIN_VOLUME_def)
  next
    case False
    have "sum_list (map unat bins) \<le> length bins * 255"
      using sum_bytes_le [of bins] by (simp add: mult.commute)
    moreover have "0 < length bins * 255" using False by simp
    ultimately obtain x where x: "js_divide (sum_list (map unat bins)) (length bins * 255) = Fin x"
      "0 \<le> x" "x \<le> 1"
      using js_divide_unit by blast
    show ?thesis
      using assms Inr False x
      by (simp add: getInputVolume_def getInputVolume_try_def Let_def BYTE_MAX_def clamp_unit)
  qed
qed

lemma getInputVolume_range: "\<exists>v. fst (getInputVolume s) = Inr (Fin v) \<and> 0 \<le> v \<and> v \<le> 1"
proof (cases "inputAnalyser (if inputAnalyser s = None then initializeInputAnalyser s else s)")
  case None
  then show ?thesis using getInputVolume_none [of s] by simp
next
  case (Some a)
  show ?thesis
  proof (cases "getByteFrequencyData a (replicate (frequencyBinCount a) 0)")
    case (Inl x)
    then show ?thesis using getInputVolume_read [OF Some] by simp
  next
    case (Inr bins)
    show ?thesis
    proof (cases "bins = []")
      case True
      then show ?thesis using getInputVolume_read [OF Some] Inr by simp
    next
      case False
      have "sum_list (map unat bins) \<le> length bins * 255"
        using sum_bytes_le [of bins] by (simp add: mult.commute)
      moreover have "0 < length bins * 255" using False by simp
      ultimately obtain x where "js_divide (sum_list (map unat bins)) (length bins * 255) = Fin x"
        "0 \<le> x" "x \<le> 1"
        using js_divide_unit by blast
      then show ?thesis using getInputVolume_read [OF Some] Inr False by simp
    qed
  qed
qed

text \<open>No context and none to be constructed, or no microphone track: the result is 0.\<close>

lemma initializeInputAnalyser_none:
  assumes "inputAnalyser s = None"
    and "(audioContext s = None \<and>
          (audioContextCtor (platform s) = NoConstructor \<or>
           audioContextCtor (platform s) = AlwaysThrows)) \<or>
         lookupMicrophone (room s) = Inr None"
  shows "inputAnalyser (initializeInputAnalyser s) = None"
  using assms
  by (auto simp: initializeInputAnalyser_def ensureAudioContext_def Let_def
      split: option.split ctor_behaviour.split sum.split)

lemma getInputVolume_unavailable:
  assumes "inputAnalyser s = None"
    and "(audioContext s = None \<and>
          (audioContextCtor (platform s) = NoConstructor \<or>
           audioContextCtor (platform s) = AlwaysThrows)) \<or>
         lookupMicrophone (room s) = Inr None"
  shows "fst (getInputVolume s) = Inr (Fin 0)"
  using assms initializeInputAnalyser_none [OF assms] getInputVolume_none [of s] by simp

text \<open>A lookup that throws leaves the manager without an analyser, whatever the
  platform is; and the method of livekit-client, called detached, throws.\<close>

lemma initializeInputAnalyser_lookup_throws:
  assumes "inputAnalyser s = None" and "lookupMicrophone (room s) = Inl x"
  shows "inputAnalyser (initializeInputAnalyser s) = None"
  using assms
  by (auto simp: initializeInputAnalyser_def ensureAudioContext_def Let_def
      split: option.split ctor_behaviour.split sum.split)

lemma lookupMicrophone_livekit:
  assumes "localParticipant rm = Some lp"
    and "lp_getTrackPublication lp = Some (livekitGetTrackPublication mic)"
  shows "lookupMicrophone (Some rm) = Inl (Error ''Cannot read properties of undefined'')"
  using assms by (simp add: lookupMicrophone_def livekitGetTrackPublication_def)

lemma getInputVolume_livekit:
  assumes "inputAnalyser s = None" and "room s = Some rm"
    and "localParticipant rm = Some lp"
    and "lp_getTrackPublication lp = Some (livekitGetTrackPublication mic)"
  shows "fst (getInputVolume s) = Inr (Fin 0) \<and> inputAnalyser (snd (getInputVolume s)) = None"
proof -
  have "lookupMicrophone (room s) = Inl (Error ''Cannot read properties of undefined'')"
    using assms(2) lookupMicrophone_livekit [OF assms(3,4)] by simp
  then have none: "inputAnalyser (initializeInputAnalyser s) = None"
    using assms(1) by (rule initializeInputAnalyser_lookup_throws [rotated])
  then show ?thesis
    using assms(1) getInputVolume_none [of s] by (simp add: getInputVolume_state)
qed

lemma getInputVolume_frame:
  "platform (snd (getInputVolume s)) = platform s"
  "audioElements (snd (getInputVolume s)) = audioElements s"
  "trackStats (snd (getInputVolume s)) = trackStats s"
  "room (snd (getInputVolume s)) = room s"
  by (simp_all add: getInputVolume_state initializeInputAnalyser_def ensureAudioContext_def
      Let_def split: option.split ctor_behaviour.split sum.split)

lemma getInputVolume_context:
  assumes "inputAnalyser s = None" and "audioContext s = None"
    and "audioContextCtor (platform s) = Constructs st"
  shows "audioContext (snd (getInputVolume s))
           = Some \<lparr>ctx_sampleRate = Some 16000, ctx_state = st\<rparr>"
  using assms
  by (simp add: getInputVolume_state initializeInputAnalyser_def ensureAudioContext_def
      Let_def split: option.split sum.split)

text \<open>With a method that does not read \<^verbatim>\<open>this\<close> the analyser is built and read:
  128 bins of 85 give the double nearest to a third, which is not a third.\<close>

lemma standInSession_analyser:
  "inputAnalyser (initializeInputAnalyser (standInSession bins)) =
     Some \<lparr>an_fftSize = 256, frequencyBinCount = 128, an_bins = bins,
           an_readThrows = False\<rparr>"
  by (simp add: standInSession_def setRoom_def newManager_def
      initializeInputAnalyser_def ensureAudioContext_def browser_def standInRoom_def
      unboundGetTrackPublication_def lookupMicrophone_def ANALYSER_FFT_SIZE_def Let_def)

lemma getInputVolume_standIn:
  assumes "length bins = 128"
  shows "fst (getInputVolume (standInSession bins))
           = Inr (js_divide (sum_list (map unat bins)) 32640)"
proof -
  have none: "inputAnalyser (standInSession bins) = None"
    by (simp add: standInSession_def setRoom_def newManager_def)
  have a: "inputAnalyser (if inputAnalyser (standInSession bins) = None
             then initializeInputAnalyser (standInSession bins) else standInSession bins)
           = Some \<lparr>an_fftSize = 256, frequencyBinCount = 128, an_bins = bins,
                   an_readThrows = False\<rparr>"
    by (simp add: none standInSession_analyser)
  have "bins \<noteq> []" using assms by auto
  then show ?thesis
    using getInputVolume_read [OF a] assms
    by (simp add: getByteFrequencyData_def)
qed

lemma doubleDivide_example: "doubleDivide 10880 32640 = 6004799503160661 / 18014398509481984"
  by (simp add: doubleDivide_def roundTiesToEven_def Let_def compute_floorlog power_int_def
      power_divide)

lemma getInputVolume_third:
  "fst (getInputVolume (standInSession (replicate 128 85)))
     = Inr (Fin (6004799503160661 / 18014398509481984))"
proof -
  have "sum_list (map unat (replicate 128 (85 :: 8 word))) = 10880"
    by (simp add: sum_list_replicate)
  moreover have "length (replicate 128 (85 :: 8 word)) = 128"
    by (simp)
  ultimately have "fst (getInputVolume (standInSession (replicate 128 85)))
      = Inr (js_divide 10880 32640)"
    using getInputVolume_standIn [of "replicate 128 85"] by (simp)
  then show ?thesis
    by (simp add: js_divide_def doubleDivide_example)
qed

text \<open>
  C9 at a failing input. The local participant of the room has published the
  microphone: its method, called on the participant, returns the track. A context can
  be constructed, and the analyser's two loudest bins are full. \<^verbatim>\<open>getInputVolume\<close>
  constructs the context, calls the method detached, which throws, builds no
  analyser and returns 0, on the first call and on every later one.
\<close>

theorem getInputVolume_detached_getter:
  "livekitGetTrackPublication (Some \<lparr>mst_id = ''mst-local-mic''\<rparr>) OnParticipant SourceMicrophone
     = Returns (Some \<lparr>mst_id = ''mst-local-mic''\<rparr>) \<and>
   audioContext (snd (getInputVolume micSession))
     = Some \<lparr>ctx_sampleRate = Some 16000, ctx_state = Running\<rparr> \<and>
   analyserBins (platform micSession) = [255, 255] \<and>
   inputAnalyser (snd (getInputVolume micSession)) = None \<and>
   fst (getInputVolume micSession) = Inr (Fin 0) \<and>
   fst (getInputVolume (snd (getInputVolume micSession))) = Inr (Fin 0)"
proof -
  let ?lp = "\<lparr>lp_trackPublications = [],
              lp_getTrackPublication =
                Some (livekitGetTrackPublication (Some \<lparr>mst_id = ''mst-local-mic''\<rparr>))\<rparr>"
  have s: "inputAnalyser micSession = None" "audioContext micSession = None"
    "audioContextCtor (platform micSession) = Constructs Running"
    "analyserBins (platform micSession) = [255, 255]"
    "room micSession = Some exampleRoom"
    by (simp_all add: micSession_def setRoom_def newManager_def browser_def)
  have lp: "localParticipant exampleRoom = Some ?lp"
    "lp_getTrackPublication ?lp
       = Some (livekitGetTrackPublication (Some \<lparr>mst_id = ''mst-local-mic''\<rparr>))"
    by (simp_all add: exampleRoom_def)
  have first: "fst (getInputVolume micSession) = Inr (Fin 0)"
    "inputAnalyser (snd (getInputVolume micSession)) = None"
    using getInputVolume_livekit [OF s(1) s(5) lp] by simp_all
  have "room (snd (getInputVolume micSession)) = Some exampleRoom"
    using s(5) by (simp add: getInputVolume_frame)
  then have second: "fst (getInputVolume (snd (getInputVolume micSession))) = Inr (Fin 0)"
    using getInputVolume_livekit [OF first(2) _ lp] by simp
  show ?thesis
    using first second s(4) getInputVolume_context [OF s(1,2,3)]
    by (simp add: livekitGetTrackPublication_def)
qed


section \<open>Teardown\<close>

lemma cleanupAudioCapture_fields:
  "recorders (snd (cleanupAudioCapture s)) = []"
  "processors (snd (cleanupAudioCapture s)) = []"
  "sourceNodes (snd (cleanupAudioCapture s)) = []"
  "clonedTracks (snd (cleanupAudioCapture s)) = []"
  "trackCaptureMap (snd (cleanupAudioCapture s)) = []"
  "workletReady (snd (cleanupAudioCapture s)) = False"
  "audioElements (snd (cleanupAudioCapture s)) = audioElements s"
  "trackStats (snd (cleanupAudioCapture s)) = trackStats s"
  "platform (snd (cleanupAudioCapture s)) = platform s"
  by (simp_all add: cleanupAudioCapture_def Let_def split: option.split)

text \<open>\<^verbatim>\<open>#cleanupAudioCapture\<close> throws exactly when there is a context that is not
  closed and closing it throws; the context reference is then kept.\<close>

lemma cleanupAudioCapture_throws:
  "fst (cleanupAudioCapture s) =
     (case audioContext s of
        None \<Rightarrow> None
      | Some ctx \<Rightarrow>
          if ctx_state ctx \<noteq> Closed \<and> throwing (platform s) ContextClosed
          then Some (Error ''close'') else None)"
  "audioContext (snd (cleanupAudioCapture s)) =
     (if fst (cleanupAudioCapture s) = None then None else audioContext s)"
  by (simp_all add: cleanupAudioCapture_def Let_def split: option.split)

lemma cleanupAudioCapture_cleared:
  assumes "recorders s = []" "processors s = []" "sourceNodes s = []" "clonedTracks s = []"
    "trackCaptureMap s = []" "audioContext s = None" "workletReady s = False"
  shows "cleanupAudioCapture s = (None, s)"
  using assms by (simp add: cleanupAudioCapture_def Let_def)

text \<open>
  When \<^verbatim>\<open>#cleanupAudioCapture\<close> returns, so does \<^verbatim>\<open>cleanup\<close>; all collections are
  then empty, the context reference is cleared, and a second \<^verbatim>\<open>cleanup\<close> returns
  and changes nothing.
\<close>

lemma cleanup_returns:
  assumes "fst (cleanupAudioCapture s) = None"
  shows "fst (cleanup s) = None"
    and "audioElements (snd (cleanup s)) = []"
    and "trackStats (snd (cleanup s)) = []"
    and "recorders (snd (cleanup s)) = []"
    and "processors (snd (cleanup s)) = []"
    and "sourceNodes (snd (cleanup s)) = []"
    and "clonedTracks (snd (cleanup s)) = []"
    and "trackCaptureMap (snd (cleanup s)) = []"
    and "audioContext (snd (cleanup s)) = None"
    and "cleanup (snd (cleanup s)) = (None, snd (cleanup s))"
proof -
  obtain s1 where s1: "cleanupAudioCapture s = (None, s1)"
    using assms by (cases "cleanupAudioCapture s") simp
  have f: "recorders s1 = []" "processors s1 = []" "sourceNodes s1 = []"
    "clonedTracks s1 = []" "trackCaptureMap s1 = []" "workletReady s1 = False"
    using cleanupAudioCapture_fields [of s] by (simp_all add: s1)
  have c: "audioContext s1 = None"
    using cleanupAudioCapture_throws(2) [of s] by (simp add: s1)
  define s2 where "s2 = snd (cleanup s)"
  have s2: "cleanup s = (None, s2)"
    by (simp add: s2_def cleanup_def s1 Let_def)
  have g: "recorders s2 = []" "processors s2 = []" "sourceNodes s2 = []"
    "clonedTracks s2 = []" "trackCaptureMap s2 = []" "workletReady s2 = False"
    "audioContext s2 = None" "audioElements s2 = []" "trackStats s2 = []"
    using f c by (simp_all add: s2_def cleanup_def s1 Let_def)
  have "cleanupAudioCapture s2 = (None, s2)"
    by (rule cleanupAudioCapture_cleared) (rule g)+
  then have "cleanup s2 = (None, s2)"
    using g by (simp add: cleanup_def)
  then show "fst (cleanup s) = None"
    and "audioElements (snd (cleanup s)) = []"
    and "trackStats (snd (cleanup s)) = []"
    and "recorders (snd (cleanup s)) = []"
    and "processors (snd (cleanup s)) = []"
    and "sourceNodes (snd (cleanup s)) = []"
    and "clonedTracks (snd (cleanup s)) = []"
    and "trackCaptureMap (snd (cleanup s)) = []"
    and "audioContext (snd (cleanup s)) = None"
    and "cleanup (snd (cleanup s)) = (None, snd (cleanup s))"
    using g by (simp_all add: s2)
qed

lemma cleanup_new: "cleanup (newManager pf) = (None, newManager pf)"
  by (simp add: cleanup_def Let_def cleanupAudioCapture_def newManager_def)



end
